theory Spec2Isabelle
  imports Complex_Main
begin

section \<open>Values\<close>

text \<open>
  The program is \<^verbatim>\<open>src/clients.py\<close>: a batch job that reads client rows lacking
  a geolocation row, geocodes their postal address and inserts the coordinates.

  A value in a column of the \<^verbatim>\<open>clients\<close> relation, as the driver hands it to
  Python: \<^verbatim>\<open>None\<close> for SQL NULL, an \<^verbatim>\<open>int\<close> or a \<^verbatim>\<open>str\<close>. (Columns of other
  SQL types are outside this model.)
\<close>

datatype sqlval = SqlNull | SqlInt int | SqlStr string

text \<open>Python's truth test \<^verbatim>\<open>if v:\<close> on such a value.\<close>

fun sql_truthy :: "sqlval \<Rightarrow> bool" where
  "sql_truthy SqlNull = False"
| "sql_truthy (SqlInt i) = (i \<noteq> 0)"
| "sql_truthy (SqlStr s) = (s \<noteq> [])"

text \<open>Python's \<^verbatim>\<open>str(n)\<close> on an integer: decimal digits, a minus sign when negative.\<close>

definition digit_char :: "nat \<Rightarrow> char" where
  "digit_char d = ''0123456789'' ! d"

fun str_nat :: "nat \<Rightarrow> string" where
  "str_nat n = (if n < 10 then [digit_char n] else str_nat (n div 10) @ [digit_char (n mod 10)])"

definition str_int :: "int \<Rightarrow> string" where
  "str_int i = (if i < 0 then CHR ''-'' # str_nat (nat (- i)) else str_nat (nat i))"

fun py_str :: "sqlval \<Rightarrow> string" where
  "py_str SqlNull = ''None''"
| "py_str (SqlInt i) = str_int i"
| "py_str (SqlStr s) = s"

text \<open>
  A value decoded from a JSON body by \<^verbatim>\<open>response.json()\<close>. A dict is an association
  list; the first binding of a key is the one a lookup finds.
\<close>

datatype pyval =
    PNone
  | PBool bool
  | PInt int
  | PFloat real
  | PStr string
  | PList "pyval list"
  | PDict "(string \<times> pyval) list"

fun truthy :: "pyval \<Rightarrow> bool" where
  "truthy PNone = False"
| "truthy (PBool b) = b"
| "truthy (PInt i) = (i \<noteq> 0)"
| "truthy (PFloat x) = (x \<noteq> 0)"
| "truthy (PStr s) = (s \<noteq> [])"
| "truthy (PList xs) = (xs \<noteq> [])"
| "truthy (PDict kvs) = (kvs \<noteq> [])"

text \<open>The exceptions the program can meet. Every raise is a value \<open>Inl e\<close>.\<close>

datatype py_exc =
    KeyError string
  | TypeError
  | IndexError
  | AttributeError
  | RequestException string
  | DatabaseError
  | OtherException string

section \<open>Address Builder\<close>

text \<open>
  A client is the \<^verbatim>\<open>dict(zip(columns, row))\<close> of one fetched row: a map from column
  names to values. \<^verbatim>\<open>client.get(k)\<close> is \<^verbatim>\<open>None\<close> for a key that is absent.
\<close>

type_synonym client = "string \<rightharpoonup> sqlval"

definition dict_get :: "client \<Rightarrow> string \<Rightarrow> sqlval" where
  "dict_get client k = (case client k of None \<Rightarrow> SqlNull | Some v \<Rightarrow> v)"

text \<open>
  \<^verbatim>\<open>', '.join(parts)\<close>: the parts separated by the separator. Python raises
  \<^verbatim>\<open>TypeError\<close> when a part is not a \<^verbatim>\<open>str\<close>.
\<close>

fun join_str :: "string \<Rightarrow> string list \<Rightarrow> string" where
  "join_str sep [] = []"
| "join_str sep [s] = s"
| "join_str sep (s # t # ss) = s @ sep @ join_str sep (t # ss)"

fun the_strs :: "sqlval list \<Rightarrow> string list option" where
  "the_strs [] = Some []"
| "the_strs (SqlStr s # vs) = (case the_strs vs of None \<Rightarrow> None | Some ss \<Rightarrow> Some (s # ss))"
| "the_strs (_ # vs) = None"

definition py_join :: "string \<Rightarrow> sqlval list \<Rightarrow> py_exc + string" where
  "py_join sep parts = (case the_strs parts of None \<Rightarrow> Inl TypeError | Some ss \<Rightarrow> Inr (join_str sep ss))"

text \<open>
  \<^verbatim>\<open>build_address_string\<close>, lines 57 to 72: four truth tests in order, each appending
  the field's value (the pincode through \<^verbatim>\<open>str\<close>), then \<^verbatim>\<open>'India'\<close>, then the join.
\<close>

definition build_address_string :: "client \<Rightarrow> py_exc + string" where
  "build_address_string client =
     (let address_parts = [];
          address_parts = (if sql_truthy (dict_get client ''address'')
                           then address_parts @ [dict_get client ''address''] else address_parts);
          address_parts = (if sql_truthy (dict_get client ''city'')
                           then address_parts @ [dict_get client ''city''] else address_parts);
          address_parts = (if sql_truthy (dict_get client ''state'')
                           then address_parts @ [dict_get client ''state''] else address_parts);
          address_parts = (if sql_truthy (dict_get client ''pincode'')
                           then address_parts @ [SqlStr (py_str (dict_get client ''pincode''))]
                           else address_parts);
          address_parts = address_parts @ [SqlStr ''India'']
      in py_join '', '' address_parts)"

section \<open>Geocoding Client\<close>

text \<open>
  Subscripts and \<^verbatim>\<open>.get\<close> on a decoded value. \<^verbatim>\<open>v[k]\<close> with a string key raises
  \<^verbatim>\<open>KeyError\<close> on a dict that lacks the key and \<^verbatim>\<open>TypeError\<close> on anything that is
  not a dict; \<^verbatim>\<open>v[0]\<close> reads a list or a string; \<^verbatim>\<open>v.get(k, d)\<close> exists on dicts
  only.
\<close>

fun py_item :: "pyval \<Rightarrow> string \<Rightarrow> py_exc + pyval" where
  "py_item (PDict kvs) k = (case map_of kvs k of None \<Rightarrow> Inl (KeyError k) | Some v \<Rightarrow> Inr v)"
| "py_item _ k = Inl TypeError"

fun py_first :: "pyval \<Rightarrow> py_exc + pyval" where
  "py_first (PList []) = Inl IndexError"
| "py_first (PList (x # xs)) = Inr x"
| "py_first (PStr []) = Inl IndexError"
| "py_first (PStr (c # cs)) = Inr (PStr [c])"
| "py_first (PDict kvs) = Inl (KeyError ''0'')"
| "py_first _ = Inl TypeError"

fun py_get :: "pyval \<Rightarrow> string \<Rightarrow> pyval \<Rightarrow> py_exc + pyval" where
  "py_get (PDict kvs) k d = Inr (case map_of kvs k of None \<Rightarrow> d | Some v \<Rightarrow> v)"
| "py_get _ k d = Inl AttributeError"

definition bind_exc :: "py_exc + 'a \<Rightarrow> ('a \<Rightarrow> py_exc + 'b) \<Rightarrow> py_exc + 'b" where
  "bind_exc m f = (case m of Inl e \<Rightarrow> Inl e | Inr x \<Rightarrow> f x)"

text \<open>
  The dict \<^verbatim>\<open>get_geolocation\<close> returns has one of two shapes: the four keys of a
  success, or \<^verbatim>\<open>error\<close> and \<^verbatim>\<open>message\<close>. The message is a value of the body, or
  \<^verbatim>\<open>str(e)\<close> of the exception caught (kept as the exception: its text is Python's).
\<close>

datatype message = Text pyval | StrOf py_exc

datatype geo_data =
    Success (latitude: pyval) (longitude: pyval) (formatted_address: pyval) (place_id: pyval)
  | Failure (error: pyval) (message: message)

text \<open>
  Lines 86 to 102, the part of the \<^verbatim>\<open>try\<close> block that reads the decoded body, in the
  order Python evaluates it. \<^verbatim>\<open>and\<close> reads \<^verbatim>\<open>data['results']\<close> only when the status
  is \<^verbatim>\<open>'OK'\<close>.
\<close>

definition geocode_body :: "pyval \<Rightarrow> py_exc + geo_data" where
  "geocode_body data =
     bind_exc (py_item data ''status'') (\<lambda>status.
     bind_exc (if status = PStr ''OK''
               then bind_exc (py_item data ''results'') (\<lambda>rs. Inr (truthy rs))
               else Inr False) (\<lambda>ok.
     if ok then
       bind_exc (py_item data ''results'') (\<lambda>rs.
       bind_exc (py_first rs) (\<lambda>first.
       bind_exc (py_item first ''geometry'') (\<lambda>geometry.
       bind_exc (py_item geometry ''location'') (\<lambda>location.
       bind_exc (py_item first ''formatted_address'') (\<lambda>formatted.
       bind_exc (py_item location ''lat'') (\<lambda>lat.
       bind_exc (py_item location ''lng'') (\<lambda>lng.
       bind_exc (py_get first ''place_id'' (PStr [])) (\<lambda>place.
         Inr (Success lat lng formatted place)))))))))
     else
       bind_exc (py_get data ''status'' (PStr ''UNKNOWN'')) (\<lambda>err.
       bind_exc (py_get data ''error_message'' (PStr ''No results found'')) (\<lambda>msg.
         Inr (Failure err (Text msg))))))"

text \<open>
  The provider is the environment: for an address, \<^verbatim>\<open>requests.get\<close>,
  \<^verbatim>\<open>raise_for_status\<close> and \<^verbatim>\<open>json\<close> either raise or give a decoded body.
\<close>

datatype http_result = Raised py_exc | Body pyval

type_synonym geocoder = "string \<Rightarrow> http_result"

text \<open>
  \<^verbatim>\<open>get_geolocation\<close>, lines 75 to 113: the two handlers turn every exception into a
  failure dict, so the function itself never raises.
\<close>

definition get_geolocation :: "geocoder \<Rightarrow> string \<Rightarrow> geo_data" where
  "get_geolocation http address =
     (case (case http address of Raised e \<Rightarrow> Inl e | Body data \<Rightarrow> geocode_body data) of
        Inr g \<Rightarrow> g
      | Inl (RequestException t) \<Rightarrow> Failure (PStr ''API_REQUEST_FAILED'') (StrOf (RequestException t))
      | Inl e \<Rightarrow> Failure (PStr ''UNEXPECTED_ERROR'') (StrOf e))"

section \<open>The store\<close>

text \<open>
  The two relations, the rows the open transaction has inserted and not yet committed,
  and what the run leaves behind for an observer: the addresses sent to the provider and
  the summary printed. Any call on the connection may raise; \<open>faults\<close> says which ones
  do, one flag per call in the order of the calls (no flag left: the call succeeds).
\<close>

record client_row =
  c_id :: int
  c_client_name :: sqlval
  c_address :: sqlval
  c_pincode :: sqlval
  c_state :: sqlval
  c_city :: sqlval

record geo_row =
  g_id :: sqlval
  g_latitude :: pyval
  g_longitude :: pyval
  g_type :: sqlval

record summary =
  total :: nat
  saved_n :: nat
  skipped_n :: nat
  failed_n :: nat

record world =
  tbl_clients :: "client_row list"
  tbl_geolocation :: "geo_row list"
  pending :: "geo_row list"
  faults :: "bool list"
  geocoded :: "string list"
  reported :: "summary option"

definition db_call :: "world \<Rightarrow> bool \<times> world" where
  "db_call w = (case faults w of [] \<Rightarrow> (False, w) | f # fs \<Rightarrow> (f, w\<lparr>faults := fs\<rparr>))"

definition db_try :: "world \<Rightarrow> (world \<Rightarrow> (py_exc + 'a) \<times> world) \<Rightarrow> (py_exc + 'a) \<times> world" where
  "db_try w k = (case db_call w of (True, w') \<Rightarrow> (Inl DatabaseError, w') | (False, w') \<Rightarrow> k w')"

text \<open>What a query of this connection sees: the committed rows and its own inserts.\<close>

definition visible :: "world \<Rightarrow> geo_row list" where
  "visible w = tbl_geolocation w @ pending w"

text \<open>\<^verbatim>\<open>conn.commit()\<close>, \<^verbatim>\<open>conn.rollback()\<close> and \<^verbatim>\<open>conn.close()\<close> on the rows.\<close>

definition commit :: "world \<Rightarrow> world" where
  "commit w = w\<lparr>tbl_geolocation := tbl_geolocation w @ pending w, pending := []\<rparr>"

definition rollback :: "world \<Rightarrow> world" where
  "rollback w = w\<lparr>pending := []\<rparr>"

definition close_conn :: "world \<Rightarrow> world" where
  "close_conn w = w\<lparr>pending := []\<rparr>"

text \<open>A connection that \<^verbatim>\<open>psycopg2.connect\<close> has just opened has no transaction of its own yet.\<close>

definition open_conn :: "world \<Rightarrow> world" where
  "open_conn w = w\<lparr>pending := []\<rparr>"

section \<open>Candidate Source\<close>

text \<open>
  The query of \<^verbatim>\<open>get_clients_without_geolocation\<close>, clause by clause: \<open>ct\<close> is the
  first common table expression, \<open>main_rel\<close> the second (a left join: a row of \<open>ct\<close>
  with no matching client gives one row of NULLs, here \<open>None\<close>), \<open>main_ids\<close> the
  subquery of the \<^verbatim>\<open>NOT IN\<close>.
\<close>

definition ct :: "world \<Rightarrow> geo_row list" where
  "ct w = filter (\<lambda>g. g_type g = SqlStr ''client'') (visible w)"

definition main_rel :: "world \<Rightarrow> client_row option list" where
  "main_rel w =
     concat (map (\<lambda>g. let ms = filter (\<lambda>c. SqlInt (c_id c) = g_id g) (tbl_clients w)
                       in if ms = [] then [None] else map Some ms) (ct w))"

definition main_ids :: "world \<Rightarrow> int list" where
  "main_ids w = List.map_filter (map_option c_id) (main_rel w)"

definition select_candidates :: "world \<Rightarrow> client_row list" where
  "select_candidates w =
     filter (\<lambda>c. c_client_name c \<noteq> SqlNull \<and> c_id c \<notin> set (main_ids w)) (tbl_clients w)"

definition columns :: "string list" where
  "columns = [''id'', ''client_name'', ''address'', ''pincode'', ''state'', ''city'']"

definition row_dict :: "client_row \<Rightarrow> client" where
  "row_dict r =
     map_of (zip columns [SqlInt (c_id r), c_client_name r, c_address r, c_pincode r, c_state r, c_city r])"

text \<open>
  Lines 50 to 54: \<^verbatim>\<open>conn.cursor()\<close>, \<^verbatim>\<open>cur.execute\<close> and \<^verbatim>\<open>cur.fetchall\<close> are three
  calls on the connection; an error of any of them propagates.
\<close>

definition get_clients_without_geolocation :: "world \<Rightarrow> (py_exc + client list) \<times> world" where
  "get_clients_without_geolocation w =
     db_try w (\<lambda>w1.
     db_try w1 (\<lambda>w2.
     db_try w2 (\<lambda>w3.
       (Inr (map row_dict (select_candidates w3)), w3))))"

section \<open>Geolocation Writer\<close>

text \<open>SQL's \<^verbatim>\<open>id = %s\<close>: never true of a NULL.\<close>

definition sql_eq :: "sqlval \<Rightarrow> sqlval \<Rightarrow> bool" where
  "sql_eq a b = (a \<noteq> SqlNull \<and> b \<noteq> SqlNull \<and> a = b)"

definition existing_row :: "world \<Rightarrow> sqlval \<Rightarrow> geo_row option" where
  "existing_row w client_id =
     find (\<lambda>g. sql_eq (g_id g) client_id \<and> g_type g = SqlStr ''client'') (visible w)"

text \<open>
  The \<^verbatim>\<open>try\<close> block of \<^verbatim>\<open>save_geolocation\<close>, lines 118 to 145. The calls on the
  connection are, in order: \<^verbatim>\<open>conn.cursor()\<close>, \<^verbatim>\<open>cur.execute\<close> of the check,
  \<^verbatim>\<open>cur.fetchone()\<close>, \<^verbatim>\<open>cur.execute\<close> of the insert and \<^verbatim>\<open>conn.commit()\<close>. The
  parameters of the insert are evaluated before it runs, so a dict without
  \<^verbatim>\<open>'latitude'\<close> raises \<^verbatim>\<open>KeyError\<close> there.
\<close>

definition save_try :: "world \<Rightarrow> sqlval \<Rightarrow> geo_data \<Rightarrow> (py_exc + bool) \<times> world" where
  "save_try w client_id geo =
     db_try w (\<lambda>w1.
     db_try w1 (\<lambda>w2.
     db_try w2 (\<lambda>w3.
       if existing_row w3 client_id \<noteq> None then (Inr False, w3)
       else (case geo of
               Failure e m \<Rightarrow> (Inl (KeyError ''latitude''), w3)
             | Success lat lng fa pid \<Rightarrow>
                 db_try w3 (\<lambda>w4.
                 db_try (w4\<lparr>pending := pending w4 @
                           [\<lparr>g_id = client_id, g_latitude = lat, g_longitude = lng,
                             g_type = SqlStr ''client''\<rparr>]\<rparr>) (\<lambda>w5.
                   (Inr True, commit w5)))))))"

text \<open>
  \<^verbatim>\<open>save_geolocation\<close>, lines 116 to 150: the handler calls \<^verbatim>\<open>conn.rollback()\<close>
  (one more call on the connection, which may raise in its turn; that error leaves the
  function) and returns \<^verbatim>\<open>False\<close>.
\<close>

definition save_geolocation :: "world \<Rightarrow> sqlval \<Rightarrow> geo_data \<Rightarrow> (py_exc + bool) \<times> world" where
  "save_geolocation w client_id geo =
     (case save_try w client_id geo of
        (Inr saved, w') \<Rightarrow> (Inr saved, w')
      | (Inl e, w') \<Rightarrow> db_try w' (\<lambda>w''. (Inr False, rollback w'')))"

section \<open>Batch Orchestrator\<close>

text \<open>The records appended to \<^verbatim>\<open>results\<close>; \<open>status\<close> is the value of their key \<^verbatim>\<open>'status'\<close>.\<close>

datatype outcome =
    Outcome_success sqlval sqlval pyval pyval pyval
  | Outcome_skipped sqlval sqlval string
  | Outcome_failed sqlval sqlval pyval message

fun status :: "outcome \<Rightarrow> string" where
  "status (Outcome_success i n lat lng fa) = ''success''"
| "status (Outcome_skipped i n r) = ''skipped''"
| "status (Outcome_failed i n e m) = ''failed''"

fun outcome_client_id :: "outcome \<Rightarrow> sqlval" where
  "outcome_client_id (Outcome_success i n lat lng fa) = i"
| "outcome_client_id (Outcome_skipped i n r) = i"
| "outcome_client_id (Outcome_failed i n e m) = i"

record loop_state =
  results :: "outcome list"
  success_count :: nat
  failed_count :: nat
  skipped_count :: nat

definition dict_item :: "client \<Rightarrow> string \<Rightarrow> py_exc + sqlval" where
  "dict_item client k = (case client k of None \<Rightarrow> Inl (KeyError k) | Some v \<Rightarrow> Inr v)"

text \<open>
  The body of the loop, lines 198 to 249, for one client. (The pause of lines 252 and
  253 changes nothing this model observes.)
\<close>

definition process_client ::
  "geocoder \<Rightarrow> world \<Rightarrow> loop_state \<Rightarrow> client \<Rightarrow> (py_exc + loop_state) \<times> world" where
  "process_client http w st client =
     (case dict_item client ''id'' of Inl e \<Rightarrow> (Inl e, w) | Inr client_id \<Rightarrow>
      (case dict_item client ''client_name'' of Inl e \<Rightarrow> (Inl e, w) | Inr client_name \<Rightarrow>
       (case build_address_string client of Inl e \<Rightarrow> (Inl e, w) | Inr address \<Rightarrow>
          let geo = get_geolocation http address;
              w1 = w\<lparr>geocoded := geocoded w @ [address]\<rparr>
          in (case geo of
                Success lat lng fa pid \<Rightarrow>
                  (case save_geolocation w1 client_id geo of
                     (Inl e, w2) \<Rightarrow> (Inl e, w2)
                   | (Inr saved, w2) \<Rightarrow>
                       if saved
                       then (Inr (st\<lparr>success_count := success_count st + 1,
                                     results := results st @
                                       [Outcome_success client_id client_name lat lng fa]\<rparr>), w2)
                       else (Inr (st\<lparr>skipped_count := skipped_count st + 1,
                                     results := results st @
                                       [Outcome_skipped client_id client_name
                                          ''Already exists in database'']\<rparr>), w2))
              | Failure err msg \<Rightarrow>
                  (Inr (st\<lparr>failed_count := failed_count st + 1,
                            results := results st @
                              [Outcome_failed client_id client_name err msg]\<rparr>), w1)))))"

fun process_loop ::
  "geocoder \<Rightarrow> world \<Rightarrow> loop_state \<Rightarrow> client list \<Rightarrow> (py_exc + loop_state) \<times> world" where
  "process_loop http w st [] = (Inr st, w)"
| "process_loop http w st (client # rest) =
     (case process_client http w st client of
        (Inl e, w') \<Rightarrow> (Inl e, w')
      | (Inr st', w') \<Rightarrow> process_loop http w' st' rest)"

text \<open>
  Lines 178 to 184. \<^verbatim>\<open>if limit:\<close> is Python's truth test, and \<^verbatim>\<open>xs[:n]\<close> with a
  negative \<open>n\<close> drops the last \<open>- n\<close> elements.
\<close>

definition py_prefix :: "'a list \<Rightarrow> int \<Rightarrow> 'a list" where
  "py_prefix xs n = (if 0 \<le> n then take (nat n) xs else take (nat (int (length xs) + n)) xs)"

definition apply_limit :: "int option \<Rightarrow> 'a list \<Rightarrow> 'a list" where
  "apply_limit limit all_clients =
     (case limit of
        None \<Rightarrow> all_clients
      | Some n \<Rightarrow> if n \<noteq> 0 then py_prefix all_clients n else all_clients)"

text \<open>
  The configuration read from the environment: \<^verbatim>\<open>os.getenv\<close> gives \<^verbatim>\<open>None\<close> or a
  string, and \<^verbatim>\<open>all([...])\<close> wants both truthy.
\<close>

record config =
  pg_host :: "string option"
  google_api_key :: "string option"

definition config_ok :: "config \<Rightarrow> bool" where
  "config_ok cfg =
     ((case pg_host cfg of None \<Rightarrow> False | Some s \<Rightarrow> s \<noteq> []) \<and>
      (case google_api_key cfg of None \<Rightarrow> False | Some s \<Rightarrow> s \<noteq> []))"

definition initial_state :: loop_state where
  "initial_state = \<lparr>results = [], success_count = 0, failed_count = 0, skipped_count = 0\<rparr>"

definition summary_of :: "nat \<Rightarrow> loop_state \<Rightarrow> summary" where
  "summary_of n st =
     \<lparr>total = n, saved_n = success_count st, skipped_n = skipped_count st, failed_n = failed_count st\<rparr>"

text \<open>
  \<^verbatim>\<open>process_clients\<close>, lines 153 to 274. The value returned is \<open>Some results\<close> for
  \<^verbatim>\<open>return results\<close> and \<open>None\<close> wherever Python returns \<^verbatim>\<open>None\<close>: the bare
  \<^verbatim>\<open>return\<close> of lines 162 and 190, and the end of the two handlers. \<^verbatim>\<open>psycopg2.connect\<close>
  is a call that may raise; when it does there is no connection to close.
\<close>

definition process_clients ::
  "config \<Rightarrow> geocoder \<Rightarrow> int option \<Rightarrow> world \<Rightarrow> outcome list option \<times> world" where
  "process_clients cfg http limit w =
     (if \<not> config_ok cfg then (None, w)
      else (case db_call w of
              (True, w0) \<Rightarrow> (None, w0)
            | (False, w0) \<Rightarrow>
                (case get_clients_without_geolocation (open_conn w0) of
                   (Inl e, w1) \<Rightarrow> (None, close_conn w1)
                 | (Inr all_clients, w1) \<Rightarrow>
                     let clients = apply_limit limit all_clients in
                     if clients = [] then (None, close_conn w1)
                     else (case process_loop http w1 initial_state clients of
                             (Inl e, w2) \<Rightarrow> (None, close_conn w2)
                           | (Inr st, w2) \<Rightarrow>
                               (Some (results st),
                                close_conn (w2\<lparr>reported := Some (summary_of (length clients) st)\<rparr>))))))"

section \<open>Definitions that follow the specification's words\<close>

text \<open>
  The Address Builder as the specification words it: the non-empty fields among address,
  city, state and pincode-as-string, in that order, then the country, separated by a
  comma and a space. A field is non-empty when Python's truth test passes on it.
\<close>

definition present_fields :: "client \<Rightarrow> string list" where
  "present_fields client =
     map (\<lambda>k. py_str (dict_get client k))
       (filter (\<lambda>k. sql_truthy (dict_get client k)) [''address'', ''city'', ''state'', ''pincode''])"

definition spec_address_string :: "client \<Rightarrow> string" where
  "spec_address_string client = join_str '', '' (present_fields client @ [''India''])"

text \<open>A ClientRecord holds a string or nothing in its address, city and state.\<close>

definition str_or_none :: "sqlval \<Rightarrow> bool" where
  "str_or_none v = (case v of SqlInt i \<Rightarrow> False | SqlNull \<Rightarrow> True | SqlStr s \<Rightarrow> True)"

definition client_record :: "client \<Rightarrow> bool" where
  "client_record client =
     (str_or_none (dict_get client ''address'') \<and> str_or_none (dict_get client ''city'') \<and>
      str_or_none (dict_get client ''state''))"

text \<open>
  The Geocoding Client as the specification words it, on a body of the shape the
  provider's contract gives: a JSON object with a \<^verbatim>\<open>status\<close>; when the status is
  \<^verbatim>\<open>"OK"\<close>, a \<^verbatim>\<open>results\<close> array whose first element, if there is one, is an object
  with \<^verbatim>\<open>geometry.location.lat\<close>, \<^verbatim>\<open>geometry.location.lng\<close> and
  \<^verbatim>\<open>formatted_address\<close>.
\<close>

definition member :: "pyval \<Rightarrow> string \<Rightarrow> pyval option" where
  "member v k = (case v of PDict kvs \<Rightarrow> map_of kvs k | _ \<Rightarrow> None)"

definition member_or :: "pyval \<Rightarrow> string \<Rightarrow> pyval \<Rightarrow> pyval" where
  "member_or v k d = (case member v k of None \<Rightarrow> d | Some x \<Rightarrow> x)"

definition is_object :: "pyval \<Rightarrow> bool" where
  "is_object v = (case v of PDict kvs \<Rightarrow> True | _ \<Rightarrow> False)"

definition result_object :: "pyval \<Rightarrow> bool" where
  "result_object r =
     (is_object (member_or r ''geometry'' PNone) \<and>
      is_object (member_or (member_or r ''geometry'' PNone) ''location'' PNone) \<and>
      member (member_or (member_or r ''geometry'' PNone) ''location'' PNone) ''lat'' \<noteq> None \<and>
      member (member_or (member_or r ''geometry'' PNone) ''location'' PNone) ''lng'' \<noteq> None \<and>
      member r ''formatted_address'' \<noteq> None)"

definition provider_body :: "pyval \<Rightarrow> bool" where
  "provider_body data =
     (case member data ''status'' of
        None \<Rightarrow> False
      | Some st \<Rightarrow>
          if st = PStr ''OK''
          then (case member data ''results'' of
                  Some (PList []) \<Rightarrow> True
                | Some (PList (r # rs)) \<Rightarrow> result_object r
                | _ \<Rightarrow> False)
          else True)"

text \<open>
  Success, from the first result, exactly when the status is \<^verbatim>\<open>"OK"\<close> and the result
  list is not empty; otherwise a failure carrying the status and the provider's error
  message (default \<^verbatim>\<open>"No results found"\<close>).
\<close>

definition spec_geocode :: "pyval \<Rightarrow> geo_data" where
  "spec_geocode data =
     (let st = member_or data ''status'' PNone;
          first = (case member_or data ''results'' PNone of PList (r # rs) \<Rightarrow> Some r | _ \<Rightarrow> None)
      in if st = PStr ''OK'' \<and> first \<noteq> None
         then (let r = (case first of Some x \<Rightarrow> x | None \<Rightarrow> PNone);
                   location = member_or (member_or r ''geometry'' PNone) ''location'' PNone
               in Success (member_or location ''lat'' PNone) (member_or location ''lng'' PNone)
                    (member_or r ''formatted_address'' PNone) (member_or r ''place_id'' (PStr [])))
         else Failure st (Text (member_or data ''error_message'' (PStr ''No results found''))))"

text \<open>Two bodies a provider sends, and two that are not of the contract's shape.\<close>

definition body_ok :: pyval where
  "body_ok = PDict
     [(''results'',
       PList [PDict [(''formatted_address'', PStr ''MG Road, Bengaluru, Karnataka 560001, India''),
                     (''geometry'', PDict [(''location'', PDict [(''lat'', PFloat 12.97), (''lng'', PFloat 77.59)])]),
                     (''place_id'', PStr ''ChIJ-1'')],
              PDict [(''formatted_address'', PStr ''elsewhere''),
                     (''geometry'', PDict [(''location'', PDict [(''lat'', PInt 0), (''lng'', PInt 0)])])]]),
      (''status'', PStr ''OK'')]"

definition body_zero :: pyval where
  "body_zero = PDict [(''results'', PList []), (''status'', PStr ''ZERO_RESULTS'')]"

definition body_bad_result :: pyval where
  "body_bad_result = PDict [(''results'', PList [PDict []]), (''status'', PStr ''OK'')]"

definition body_no_status :: pyval where
  "body_no_status = PDict []"

text \<open>
  The store's calls: \<open>calls_ok n w\<close> says that none of the next \<open>n\<close> calls on the
  connection raises, \<open>after_calls n w\<close> is the world once \<open>n\<close> calls are done.
\<close>

definition calls_ok :: "nat \<Rightarrow> world \<Rightarrow> bool" where
  "calls_ok n w = (True \<notin> set (take n (faults w)))"

definition after_calls :: "nat \<Rightarrow> world \<Rightarrow> world" where
  "after_calls n w = w\<lparr>faults := drop n (faults w)\<rparr>"

text \<open>
  The Candidate Source as the specification words it: the client rows whose name is not
  null and whose id does not appear among the ids of the geolocation rows of type
  \<^verbatim>\<open>'client'\<close>.
\<close>

definition spec_candidates :: "world \<Rightarrow> client_row list" where
  "spec_candidates w =
     filter (\<lambda>c. c_client_name c \<noteq> SqlNull \<and>
                 SqlInt (c_id c) \<notin>
                   set (map g_id (filter (\<lambda>g. g_type g = SqlStr ''client'') (visible w))))
       (tbl_clients w)"

text \<open>The row the writer inserts, and the invariant of the geolocation relation.\<close>

definition new_row :: "sqlval \<Rightarrow> geo_data \<Rightarrow> geo_row" where
  "new_row client_id geo =
     \<lparr>g_id = client_id, g_latitude = latitude geo, g_longitude = longitude geo,
      g_type = SqlStr ''client''\<rparr>"

definition one_row_per_client :: "world \<Rightarrow> bool" where
  "one_row_per_client w =
     distinct (map g_id (filter (\<lambda>g. g_type g = SqlStr ''client'') (visible w)))"

text \<open>A small store and a provider, for the concrete runs below.\<close>

definition row_a :: client_row where
  "row_a = \<lparr>c_id = 1, c_client_name = SqlStr ''Acme'', c_address = SqlStr ''12 MG Road'',
            c_pincode = SqlInt 560001, c_state = SqlStr ''Karnataka'', c_city = SqlStr ''Bengaluru''\<rparr>"

definition row_b :: client_row where
  "row_b = \<lparr>c_id = 2, c_client_name = SqlStr ''Bolt'', c_address = SqlNull,
            c_pincode = SqlNull, c_state = SqlNull, c_city = SqlStr ''Pune''\<rparr>"

definition row_c :: client_row where
  "row_c = \<lparr>c_id = 3, c_client_name = SqlStr ''Core'', c_address = SqlNull,
            c_pincode = SqlInt 0, c_state = SqlNull, c_city = SqlStr []\<rparr>"

definition row_n :: client_row where
  "row_n = \<lparr>c_id = 4, c_client_name = SqlNull, c_address = SqlNull,
            c_pincode = SqlNull, c_state = SqlNull, c_city = SqlStr ''Goa''\<rparr>"

definition geo_of :: "sqlval \<Rightarrow> sqlval \<Rightarrow> geo_row" where
  "geo_of i t = \<lparr>g_id = i, g_latitude = PFloat 12.97, g_longitude = PFloat 77.59, g_type = t\<rparr>"

definition store_of :: "client_row list \<Rightarrow> geo_row list \<Rightarrow> bool list \<Rightarrow> world" where
  "store_of cs gs fs =
     \<lparr>tbl_clients = cs, tbl_geolocation = gs, pending = [], faults = fs, geocoded = [],
      reported = None\<rparr>"

definition demo_http :: geocoder where
  "demo_http address = (if address = ''India'' then Body body_zero else Body body_ok)"

definition demo_cfg :: config where
  "demo_cfg = \<lparr>pg_host = Some ''db.local'', google_api_key = Some ''k''\<rparr>"

definition demo_store :: world where
  "demo_store = store_of [row_a, row_b, row_c, row_n]
        [geo_of (SqlInt 1) (SqlStr ''client''), geo_of (SqlInt 2) (SqlStr ''vendor''),
         geo_of SqlNull (SqlStr ''client''), geo_of (SqlInt 9) (SqlStr ''client'')] []"

text \<open>
  What a call of the writer leaves behind, whatever the calls on the connection do: the
  other relations and the log untouched; on \<^verbatim>\<open>True\<close> one new committed row for an
  id that had none; otherwise the committed rows as they were.
\<close>

definition save_post :: "world \<Rightarrow> sqlval \<Rightarrow> geo_data \<Rightarrow> (py_exc + bool) \<times> world \<Rightarrow> bool" where
  "save_post w cid geo rw =
     (tbl_clients (snd rw) = tbl_clients w \<and> geocoded (snd rw) = geocoded w \<and>
      reported (snd rw) = reported w \<and>
      (if fst rw = Inr True
       then existing_row w cid = None \<and> tbl_geolocation (snd rw) = visible w @ [new_row cid geo] \<and>
            pending (snd rw) = []
       else tbl_geolocation (snd rw) = tbl_geolocation w \<and>
            (pending (snd rw) = pending w \<or> pending (snd rw) = [] \<or>
             existing_row w cid = None \<and> pending (snd rw) = pending w @ [new_row cid geo])))"

definition same_store :: "world \<Rightarrow> world \<Rightarrow> bool" where
  "same_store w v =
     (tbl_clients v = tbl_clients w \<and> tbl_geolocation v = tbl_geolocation w \<and>
      pending v = pending w \<and> geocoded v = geocoded w \<and> reported v = reported w)"

definition geocoding :: "world \<Rightarrow> string \<Rightarrow> world" where
  "geocoding w address = w\<lparr>geocoded := geocoded w @ [address]\<rparr>"

definition count_rows :: "world \<Rightarrow> sqlval \<Rightarrow> nat" where
  "count_rows w cid =
     length (filter (\<lambda>g. g_id g = cid \<and> g_type g = SqlStr ''client'') (visible w))"

definition client_of :: "client \<Rightarrow> sqlval \<Rightarrow> sqlval \<Rightarrow> string \<Rightarrow> bool" where
  "client_of client cid name address =
     (client ''id'' = Some cid \<and> client ''client_name'' = Some name \<and>
      build_address_string client = Inr address)"

definition geo_ok :: geo_data where
  "geo_ok = Success (PFloat 12.97) (PFloat 77.59)
     (PStr ''MG Road, Bengaluru, Karnataka 560001, India'') (PStr ''ChIJ-1'')"

text \<open>The world once the connection is open and the candidates are fetched.\<close>

definition fetched :: "world \<Rightarrow> world" where
  "fetched w = open_conn (after_calls 4 w)"

text \<open>
  What one turn of the loop, and the whole loop, leave behind: one outcome record per
  client in the order of the list, the counters tallying the records, the committed rows
  only growing, and a committed row for every client whose outcome is a success.
\<close>

definition has_row :: "world \<Rightarrow> sqlval \<Rightarrow> bool" where
  "has_row w cid = (\<exists>g \<in> set (tbl_geolocation w). g_id g = cid \<and> g_type g = SqlStr ''client'')"

definition tally :: "loop_state \<Rightarrow> nat" where
  "tally st = success_count st + skipped_count st + failed_count st"

definition count_status :: "string \<Rightarrow> outcome list \<Rightarrow> nat" where
  "count_status s os = length (filter (\<lambda>x. status x = s) os)"

definition counts_agree :: "loop_state \<Rightarrow> bool" where
  "counts_agree st =
     (success_count st = count_status ''success'' (results st) \<and>
      skipped_count st = count_status ''skipped'' (results st) \<and>
      failed_count st = count_status ''failed'' (results st))"

definition step_post ::
  "world \<Rightarrow> loop_state \<Rightarrow> client \<Rightarrow> loop_state \<Rightarrow> world \<Rightarrow> outcome \<Rightarrow> bool" where
  "step_post w st client st' w' x =
     (results st' = results st @ [x] \<and> outcome_client_id x = dict_get client ''id'' \<and>
      tally st' = tally st + 1 \<and> (counts_agree st \<longrightarrow> counts_agree st') \<and>
      tbl_clients w' = tbl_clients w \<and> set (tbl_geolocation w) \<subseteq> set (tbl_geolocation w') \<and>
      (status x = ''success'' \<longrightarrow> has_row w' (dict_get client ''id'')))"

definition loop_post ::
  "world \<Rightarrow> loop_state \<Rightarrow> client list \<Rightarrow> loop_state \<Rightarrow> world \<Rightarrow> outcome list \<Rightarrow> bool" where
  "loop_post w st clients st' w' xs =
     (results st' = results st @ xs \<and>
      map outcome_client_id xs = map (\<lambda>c. dict_get c ''id'') clients \<and>
      tally st' = tally st + length clients \<and> (counts_agree st \<longrightarrow> counts_agree st') \<and>
      tbl_clients w' = tbl_clients w \<and> set (tbl_geolocation w) \<subseteq> set (tbl_geolocation w') \<and>
      list_all2 (\<lambda>c x. status x = ''success'' \<longrightarrow> has_row w' (dict_get c ''id'')) clients xs)"

definition store_ab :: world where
  "store_ab = store_of [row_a, row_b] [] []"


section \<open>Address Builder: theorems\<close>

lemma the_strs_snoc:
  "the_strs (xs @ [SqlStr s]) = (case the_strs xs of None \<Rightarrow> None | Some ss \<Rightarrow> Some (ss @ [s]))"
  by (induction xs rule: the_strs.induct) (auto split: option.splits)

lemma build_address_string_refines:
  assumes "client_record client"
  shows "build_address_string client = Inr (spec_address_string client)"
  using assms unfolding client_record_def
  by (cases "dict_get client ''address''"; cases "dict_get client ''city''";
      cases "dict_get client ''state''")
     (simp_all add: build_address_string_def spec_address_string_def present_fields_def
        str_or_none_def py_join_def Let_def)

text \<open>
  C9. For every ClientRecord, \<^verbatim>\<open>build_address_string\<close> returns the non-empty fields
  among address, city, state and pincode-as-string, in that order, joined by a comma and
  a space, with India appended last. With all four fields present the result is
  "address, city, state, pincode, India"; with only the city present it is
  "city, India"; with no field present it is "India".
\<close>

theorem build_address_string_spec:
  assumes "client_record client"
  shows "build_address_string client = Inr (spec_address_string client) \<and>
    (sql_truthy (dict_get client ''address'') \<and> sql_truthy (dict_get client ''city'') \<and>
     sql_truthy (dict_get client ''state'') \<and> sql_truthy (dict_get client ''pincode'')
     \<longrightarrow> build_address_string client =
           Inr (py_str (dict_get client ''address'') @ '', '' @ py_str (dict_get client ''city'') @
                '', '' @ py_str (dict_get client ''state'') @ '', '' @
                py_str (dict_get client ''pincode'') @ '', India'')) \<and>
    (\<not> sql_truthy (dict_get client ''address'') \<and> sql_truthy (dict_get client ''city'') \<and>
     \<not> sql_truthy (dict_get client ''state'') \<and> \<not> sql_truthy (dict_get client ''pincode'')
     \<longrightarrow> build_address_string client = Inr (py_str (dict_get client ''city'') @ '', India'')) \<and>
    (\<not> sql_truthy (dict_get client ''address'') \<and> \<not> sql_truthy (dict_get client ''city'') \<and>
     \<not> sql_truthy (dict_get client ''state'') \<and> \<not> sql_truthy (dict_get client ''pincode'')
     \<longrightarrow> build_address_string client = Inr ''India'')"
proof -
  have eq: "build_address_string client = Inr (spec_address_string client)"
    using assms by (rule build_address_string_refines)
  show ?thesis
    unfolding eq by (simp add: spec_address_string_def present_fields_def)
qed

theorem build_address_string_spec_witness:
  "build_address_string
     [''address'' \<mapsto> SqlStr ''12 MG Road'', ''city'' \<mapsto> SqlStr ''Bengaluru'',
      ''state'' \<mapsto> SqlStr ''Karnataka'', ''pincode'' \<mapsto> SqlInt 560001]
     = Inr ''12 MG Road, Bengaluru, Karnataka, 560001, India'' \<and>
   build_address_string [''city'' \<mapsto> SqlStr ''Pune''] = Inr ''Pune, India'' \<and>
   build_address_string Map.empty = Inr ''India''"
proof -
  have a: "client_record [''address'' \<mapsto> SqlStr ''12 MG Road'', ''city'' \<mapsto> SqlStr ''Bengaluru'',
      ''state'' \<mapsto> SqlStr ''Karnataka'', ''pincode'' \<mapsto> SqlInt 560001]"
    by (simp add: client_record_def str_or_none_def dict_get_def)
  have b: "client_record [''city'' \<mapsto> SqlStr ''Pune'']"
    by (simp add: client_record_def str_or_none_def dict_get_def)
  have c: "client_record Map.empty"
    by (simp add: client_record_def str_or_none_def dict_get_def)
  show ?thesis
    using build_address_string_spec [OF a] build_address_string_spec [OF b]
      build_address_string_spec [OF c]
    by (simp add: dict_get_def str_int_def digit_char_def spec_address_string_def
        present_fields_def)
qed

text \<open>
  C10. A field that is present and not null but falsy (the integer 0, the empty string)
  is left out exactly as if the key were absent: this holds of the pincode and, by the
  same truth test, of address, city and state.
\<close>

theorem falsy_field_omitted:
  assumes "k \<in> {''address'', ''city'', ''state'', ''pincode''}"
    and "client k = Some v" and "\<not> sql_truthy v"
  shows "build_address_string client = build_address_string (client(k := None))"
  using assms by (auto simp: build_address_string_def dict_get_def Let_def)

theorem falsy_field_omitted_witness:
  "build_address_string [''city'' \<mapsto> SqlStr ''Pune'', ''pincode'' \<mapsto> SqlInt 0]
     = build_address_string [''city'' \<mapsto> SqlStr ''Pune''] \<and>
   build_address_string [''city'' \<mapsto> SqlStr ''Pune'', ''pincode'' \<mapsto> SqlStr []]
     = build_address_string [''city'' \<mapsto> SqlStr ''Pune''] \<and>
   build_address_string [''city'' \<mapsto> SqlStr ''Pune''] = Inr ''Pune, India''"
proof -
  have "build_address_string [''city'' \<mapsto> SqlStr ''Pune'', ''pincode'' \<mapsto> SqlInt 0]
     = build_address_string ([''city'' \<mapsto> SqlStr ''Pune'', ''pincode'' \<mapsto> SqlInt 0](''pincode'' := None))"
    by (rule falsy_field_omitted [where v = "SqlInt 0"]) simp_all
  moreover have "build_address_string [''city'' \<mapsto> SqlStr ''Pune'', ''pincode'' \<mapsto> SqlStr []]
     = build_address_string ([''city'' \<mapsto> SqlStr ''Pune'', ''pincode'' \<mapsto> SqlStr []](''pincode'' := None))"
    by (rule falsy_field_omitted [where v = "SqlStr []"]) simp_all
  moreover have "build_address_string [''city'' \<mapsto> SqlStr ''Pune''] = Inr ''Pune, India''"
    by (simp add: build_address_string_def dict_get_def py_join_def)
  ultimately show ?thesis by simp
qed

section \<open>Geocoding Client: theorems\<close>

lemma py_item_member: "member v k = Some x \<Longrightarrow> py_item v k = Inr x"
  by (cases v) (simp_all add: member_def)

lemma py_get_member: "is_object v \<Longrightarrow> py_get v k d = Inr (member_or v k d)"
  by (cases v) (simp_all add: member_def member_or_def is_object_def)

lemma member_or_Some: "member v k = Some x \<Longrightarrow> member_or v k d = x"
  by (simp add: member_or_def)

lemma is_object_member: "member v k = Some x \<Longrightarrow> is_object v"
  by (cases v) (simp_all add: member_def is_object_def)

lemma member_of_object:
  "is_object (member_or v k PNone) \<Longrightarrow> member v k = Some (member_or v k PNone)"
  by (cases "member v k") (simp_all add: member_or_def is_object_def)

lemma geocode_body_not_ok:
  assumes "member data ''status'' = Some st" and "st \<noteq> PStr ''OK''"
  shows "geocode_body data =
    Inr (Failure st (Text (member_or data ''error_message'' (PStr ''No results found''))))"
  using assms py_item_member [OF assms(1)] py_get_member [OF is_object_member [OF assms(1)]]
    member_or_Some [OF assms(1)]
  by (simp add: geocode_body_def bind_exc_def)

lemma geocode_body_empty:
  assumes "member data ''status'' = Some (PStr ''OK'')"
    and "member data ''results'' = Some (PList [])"
  shows "geocode_body data =
    Inr (Failure (PStr ''OK'') (Text (member_or data ''error_message'' (PStr ''No results found''))))"
  using py_item_member [OF assms(1)] py_item_member [OF assms(2)]
    py_get_member [OF is_object_member [OF assms(1)]] member_or_Some [OF assms(1)]
  by (simp add: geocode_body_def bind_exc_def)

lemma geocode_body_first:
  assumes "member data ''status'' = Some (PStr ''OK'')"
    and "member data ''results'' = Some (PList (r # rs))"
    and "result_object r"
  shows "geocode_body data = Inr (Success
     (member_or (member_or (member_or r ''geometry'' PNone) ''location'' PNone) ''lat'' PNone)
     (member_or (member_or (member_or r ''geometry'' PNone) ''location'' PNone) ''lng'' PNone)
     (member_or r ''formatted_address'' PNone) (member_or r ''place_id'' (PStr [])))"
proof -
  let ?g = "member_or r ''geometry'' PNone"
  let ?l = "member_or ?g ''location'' PNone"
  from assms(3) have g: "member r ''geometry'' = Some ?g"
    and l: "member ?g ''location'' = Some ?l"
    by (simp_all add: result_object_def member_of_object)
  from assms(3) obtain la ln fa where la: "member ?l ''lat'' = Some la"
    and ln: "member ?l ''lng'' = Some ln"
    and fa: "member r ''formatted_address'' = Some fa"
    by (auto simp: result_object_def)
  show ?thesis
    using py_item_member [OF assms(1)] py_item_member [OF assms(2)] py_item_member [OF g]
      py_item_member [OF l] py_item_member [OF la] py_item_member [OF ln]
      py_item_member [OF fa] py_get_member [OF is_object_member [OF g]]
      member_or_Some [OF la] member_or_Some [OF ln] member_or_Some [OF fa]
    by (simp add: geocode_body_def bind_exc_def)
qed

lemma geocode_body_spec:
  assumes "provider_body data"
  shows "geocode_body data = Inr (spec_geocode data)"
proof -
  from assms obtain st where st: "member data ''status'' = Some st"
    by (auto simp: provider_body_def split: option.splits)
  show ?thesis
  proof (cases "st = PStr ''OK''")
    case False
    then show ?thesis
      using geocode_body_not_ok [OF st False] member_or_Some [OF st]
      by (simp add: spec_geocode_def Let_def)
  next
    case True
    with st have st': "member data ''status'' = Some (PStr ''OK'')" by simp
    from assms st' consider "member data ''results'' = Some (PList [])"
      | r rs where "member data ''results'' = Some (PList (r # rs))" "result_object r"
      by (auto simp: provider_body_def split: option.splits pyval.splits list.splits)
    then show ?thesis
    proof cases
      case 1
      then show ?thesis
        using geocode_body_empty [OF st' 1] member_or_Some [OF st'] member_or_Some [OF 1]
        by (simp add: spec_geocode_def Let_def)
    next
      case 2
      then show ?thesis
        using geocode_body_first [OF st' 2] member_or_Some [OF st'] member_or_Some [OF 2(1)]
        by (simp add: spec_geocode_def Let_def)
    qed
  qed
qed

lemma provider_body_ok: "provider_body body_ok"
  by (simp add: provider_body_def body_ok_def member_def member_or_def result_object_def
      is_object_def)

lemma provider_body_zero: "provider_body body_zero"
  by (simp add: provider_body_def body_zero_def member_def)

text \<open>
  C5, as the code has it. For every response body of the provider's shape (an object
  with a status; under status "OK" a result list whose first element, if any, holds
  geometry.location.lat, geometry.location.lng and formatted_address),
  \<^verbatim>\<open>get_geolocation\<close> returns Success, with latitude, longitude, formatted address and
  place identifier (the empty string if absent) of the first result, exactly when the
  status is "OK" and the result list is not empty; otherwise it returns Failure with the
  provider's status as error code and the provider's error message (default
  "No results found"). Status "ZERO_RESULTS" gives Failure with error code
  "ZERO_RESULTS".
\<close>

theorem get_geolocation_provider_body:
  assumes "http address = Body data" and "provider_body data"
  shows "get_geolocation http address = spec_geocode data \<and>
    (member data ''status'' = Some (PStr ''ZERO_RESULTS'') \<longrightarrow>
       get_geolocation http address =
         Failure (PStr ''ZERO_RESULTS'')
           (Text (member_or data ''error_message'' (PStr ''No results found''))))"
proof -
  have eq: "get_geolocation http address = spec_geocode data"
    using assms(1) geocode_body_spec [OF assms(2)] by (simp add: get_geolocation_def)
  show ?thesis
    unfolding eq by (simp add: spec_geocode_def member_or_def)
qed

theorem get_geolocation_provider_body_witness:
  "get_geolocation (\<lambda>a. Body body_ok) ''MG Road, Bengaluru, India'' =
     Success (PFloat 12.97) (PFloat 77.59)
       (PStr ''MG Road, Bengaluru, Karnataka 560001, India'') (PStr ''ChIJ-1'') \<and>
   get_geolocation (\<lambda>a. Body body_zero) ''Nowhere, India'' =
     Failure (PStr ''ZERO_RESULTS'') (Text (PStr ''No results found''))"
proof -
  have a: "get_geolocation (\<lambda>a. Body body_ok) ''MG Road, Bengaluru, India'' = spec_geocode body_ok"
    using get_geolocation_provider_body [OF refl provider_body_ok] by simp
  have b: "get_geolocation (\<lambda>a. Body body_zero) ''Nowhere, India'' = spec_geocode body_zero"
    using get_geolocation_provider_body [OF refl provider_body_zero] by simp
  show ?thesis
    unfolding a b
    by (simp add: spec_geocode_def body_ok_def body_zero_def member_or_def member_def)
qed

text \<open>
  The claim as stated speaks of every response body. A body with status "OK" and a
  non-empty result list whose first result has no geometry is answered by the catch-all
  handler, not by Success; a body without a status is answered by the same handler, so
  the default "UNKNOWN" of line 100 is never the error code.
\<close>

theorem get_geolocation_counterexample:
  "get_geolocation (\<lambda>a. Body body_bad_result) ''x'' =
     Failure (PStr ''UNEXPECTED_ERROR'') (StrOf (KeyError ''geometry'')) \<and>
   member body_bad_result ''status'' = Some (PStr ''OK'') \<and>
   member body_bad_result ''results'' = Some (PList [PDict []]) \<and>
   get_geolocation (\<lambda>a. Body body_no_status) ''x'' =
     Failure (PStr ''UNEXPECTED_ERROR'') (StrOf (KeyError ''status''))"
  by (simp add: get_geolocation_def geocode_body_def bind_exc_def body_bad_result_def
      body_no_status_def member_def)

section \<open>The store: lemmas\<close>

lemma after_calls_after_calls: "after_calls m (after_calls n w) = after_calls (n + m) w"
  by (simp add: after_calls_def add.commute)

lemma after_calls_fields:
  "tbl_clients (after_calls n w) = tbl_clients w"
  "tbl_geolocation (after_calls n w) = tbl_geolocation w"
  "pending (after_calls n w) = pending w"
  "geocoded (after_calls n w) = geocoded w"
  "reported (after_calls n w) = reported w"
  "faults (after_calls n w) = drop n (faults w)"
  "visible (after_calls n w) = visible w"
  by (simp_all add: after_calls_def visible_def)

lemma db_call_ok: "calls_ok (Suc n) w \<Longrightarrow> db_call w = (False, after_calls (Suc 0) w)"
  by (cases "faults w") (auto simp: calls_ok_def db_call_def after_calls_def)

lemma db_call_fault: "faults w = True # fs \<Longrightarrow> db_call w = (True, after_calls (Suc 0) w)"
  by (simp add: db_call_def after_calls_def)

lemma calls_ok_after: "calls_ok (Suc n) w \<Longrightarrow> calls_ok n (after_calls (Suc 0) w)"
  by (cases "faults w") (auto simp: calls_ok_def after_calls_def)

lemma calls_ok_mono: "calls_ok n w \<Longrightarrow> m \<le> n \<Longrightarrow> calls_ok m w"
  by (auto simp: calls_ok_def dest: set_take_subset_set_take [THEN subsetD])

lemma calls_ok_add: "calls_ok (m + n) w \<Longrightarrow> calls_ok n (after_calls m w)"
  by (auto simp: calls_ok_def after_calls_def take_drop add.commute dest!: in_set_dropD)

lemma db_try_ok: "calls_ok (Suc n) w \<Longrightarrow> db_try w k = k (after_calls (Suc 0) w)"
  by (simp add: db_try_def db_call_ok)

lemma db_try_fault:
  "faults w = True # fs \<Longrightarrow> db_try w k = (Inl DatabaseError, after_calls (Suc 0) w)"
  by (simp add: db_try_def db_call_fault)

lemma db_try3:
  assumes "calls_ok 3 w"
  shows "db_try w (\<lambda>w1. db_try w1 (\<lambda>w2. db_try w2 k)) = k (after_calls 3 w)"
proof -
  have a: "calls_ok (Suc 2) w"
    using assms by (simp add: numeral_3_eq_3)
  have b: "calls_ok (Suc 1) (after_calls (Suc 0) w)"
    using calls_ok_after [OF a] by (simp add: numeral_2_eq_2)
  have c: "calls_ok (Suc 0) (after_calls (Suc 0) (after_calls (Suc 0) w))"
    using calls_ok_after [OF b] by simp
  show ?thesis
    unfolding db_try_ok [OF a] db_try_ok [OF b] db_try_ok [OF c]
    by (simp add: after_calls_after_calls numeral_3_eq_3)
qed

section \<open>Candidate Source: theorems\<close>

lemma Some_in_main_rel:
  "Some c \<in> set (main_rel w) \<longleftrightarrow>
     c \<in> set (tbl_clients w) \<and> (\<exists>g \<in> set (ct w). SqlInt (c_id c) = g_id g)"
proof -
  have one: "Some c \<in> set (let ms = filter P cl in if ms = [] then [None] else map Some ms)
      \<longleftrightarrow> c \<in> set cl \<and> P c" for P and cl :: "client_row list"
    by (auto simp: Let_def filter_empty_conv)
  show ?thesis
    unfolding main_rel_def by (simp add: one)
qed

lemma in_main_ids:
  "i \<in> set (main_ids w) \<longleftrightarrow> (\<exists>c. Some c \<in> set (main_rel w) \<and> c_id c = i)"
  by (force simp: main_ids_def List.map_filter_def image_iff)

lemma set_main_ids:
  "set (main_ids w) =
     {c_id c | c. c \<in> set (tbl_clients w) \<and> SqlInt (c_id c) \<in> g_id ` set (ct w)}"
  unfolding set_eq_iff in_main_ids Some_in_main_rel by (simp add: image_iff) metis

lemma select_candidates_spec: "select_candidates w = spec_candidates w"
  unfolding select_candidates_def spec_candidates_def
proof (rule filter_cong [OF refl])
  fix c assume c: "c \<in> set (tbl_clients w)"
  have "c_id c \<in> set (main_ids w) \<longleftrightarrow> SqlInt (c_id c) \<in> g_id ` set (ct w)"
    using c by (auto simp: set_main_ids)
  then show "(c_client_name c \<noteq> SqlNull \<and> c_id c \<notin> set (main_ids w)) =
    (c_client_name c \<noteq> SqlNull \<and>
     SqlInt (c_id c) \<notin> set (map g_id (filter (\<lambda>g. g_type g = SqlStr ''client'') (visible w))))"
    by (simp add: ct_def)
qed

lemma spec_candidates_after: "spec_candidates (after_calls n w) = spec_candidates w"
  by (simp add: spec_candidates_def after_calls_fields)

lemma get_clients_ok:
  assumes "calls_ok 3 w"
  shows "get_clients_without_geolocation w =
    (Inr (map row_dict (spec_candidates w)), after_calls 3 w)"
  unfolding get_clients_without_geolocation_def db_try3 [OF assms]
  by (simp add: select_candidates_spec spec_candidates_after)

lemma get_clients_fault:
  assumes "\<not> calls_ok 3 w"
  shows "fst (get_clients_without_geolocation w) = Inl DatabaseError"
  using assms
  by (auto simp: get_clients_without_geolocation_def db_try_def db_call_def calls_ok_def
      numeral_3_eq_3 split: list.splits bool.splits)

lemma row_dict_id: "dict_get (row_dict c) ''id'' = SqlInt (c_id c)"
  by (simp add: row_dict_def columns_def dict_get_def)

text \<open>
  C7. For every store state, \<^verbatim>\<open>get_clients_without_geolocation\<close> returns exactly the
  client rows whose \<^verbatim>\<open>client_name\<close> is not null and whose id does not appear among the
  ids of the geolocation rows of type 'client', in the order of the relation (unless one
  of its three calls on the connection raises, and then the error propagates). No client
  that has a geolocation row of type 'client' is among the rows returned.
\<close>

theorem get_clients_without_geolocation_spec:
  "fst (get_clients_without_geolocation w) =
     (if calls_ok 3 w then Inr (map row_dict (spec_candidates w)) else Inl DatabaseError) \<and>
   (\<forall>c \<in> set (spec_candidates w). c_client_name c \<noteq> SqlNull \<and>
      (\<forall>g \<in> set (visible w).
         g_type g = SqlStr ''client'' \<longrightarrow> g_id g \<noteq> dict_get (row_dict c) ''id''))"
proof -
  have "fst (get_clients_without_geolocation w) =
      (if calls_ok 3 w then Inr (map row_dict (spec_candidates w)) else Inl DatabaseError)"
    by (simp add: get_clients_ok get_clients_fault)
  moreover have "\<forall>c \<in> set (spec_candidates w). c_client_name c \<noteq> SqlNull \<and>
      (\<forall>g \<in> set (visible w).
         g_type g = SqlStr ''client'' \<longrightarrow> g_id g \<noteq> dict_get (row_dict c) ''id'')"
    by (auto simp: spec_candidates_def row_dict_id image_iff)
  ultimately show ?thesis by simp
qed

lemma row_ids: "c_id row_a = 1" "c_id row_b = 2" "c_id row_c = 3" "c_id row_n = 4"
  by (simp_all add: row_a_def row_b_def row_c_def row_n_def)

lemma row_names: "c_client_name row_a = SqlStr ''Acme''" "c_client_name row_b = SqlStr ''Bolt''"
  "c_client_name row_c = SqlStr ''Core''" "c_client_name row_n = SqlNull"
  by (simp_all add: row_a_def row_b_def row_c_def row_n_def)

lemma geo_of_fields: "g_id (geo_of i t) = i" "g_type (geo_of i t) = t"
  by (simp_all add: geo_of_def)

lemma store_of_fields:
  "tbl_clients (store_of cs gs fs) = cs" "tbl_geolocation (store_of cs gs fs) = gs"
  "pending (store_of cs gs fs) = []" "faults (store_of cs gs fs) = fs"
  "geocoded (store_of cs gs fs) = []" "reported (store_of cs gs fs) = None"
  "visible (store_of cs gs fs) = gs"
  by (simp_all add: store_of_def visible_def)

lemma demo_candidates: "spec_candidates demo_store = [row_b, row_c]"
  by (simp add: spec_candidates_def demo_store_def store_of_fields geo_of_fields row_ids row_names)

theorem get_clients_without_geolocation_spec_witness:
  "fst (get_clients_without_geolocation demo_store) = Inr [row_dict row_b, row_dict row_c] \<and>
   fst (get_clients_without_geolocation (store_of [row_a] [] [False, True])) = Inl DatabaseError"
proof -
  have a: "calls_ok 3 demo_store"
    by (simp add: calls_ok_def demo_store_def store_of_fields)
  have b: "\<not> calls_ok 3 (store_of [row_a] [] [False, True])"
    by (simp add: calls_ok_def store_of_fields)
  from get_clients_without_geolocation_spec [of demo_store] a
  have "fst (get_clients_without_geolocation demo_store) = Inr (map row_dict (spec_candidates demo_store))"
    by simp
  moreover from get_clients_without_geolocation_spec [of "store_of [row_a] [] [False, True]"] b
  have "fst (get_clients_without_geolocation (store_of [row_a] [] [False, True])) = Inl DatabaseError"
    by simp
  ultimately show ?thesis
    by (simp add: demo_candidates)
qed

section \<open>Geolocation Writer: lemmas\<close>

lemma existing_row_after [simp]: "existing_row (after_calls n w) i = existing_row w i"
  by (simp add: existing_row_def after_calls_fields)

lemma save_skip:
  assumes "calls_ok 3 w" and "existing_row w client_id \<noteq> None"
  shows "save_geolocation w client_id geo = (Inr False, after_calls 3 w)"
  using assms(2) by (simp add: save_geolocation_def save_try_def db_try3 [OF assms(1)])

lemma save_insert:
  assumes "calls_ok 5 w" and "existing_row w client_id = None" and "geo = Success lat lng fa pid"
  shows "save_geolocation w client_id geo =
    (Inr True, commit ((after_calls 5 w)\<lparr>pending := pending w @ [new_row client_id geo]\<rparr>))"
proof -
  have a: "calls_ok 3 w" using assms(1) by (rule calls_ok_mono) simp
  have "calls_ok 2 (after_calls 3 w)" using assms(1) calls_ok_add [of 3 2 w] by simp
  then have b: "calls_ok (Suc 1) (after_calls 3 w)" by (simp add: numeral_2_eq_2)
  have c: "calls_ok (Suc 0) ((after_calls (Suc 0) (after_calls 3 w))\<lparr>pending := ps\<rparr>)" for ps
    using calls_ok_after [OF b] by (simp add: calls_ok_def after_calls_def)
  have "save_try w client_id geo =
      (Inr True, commit ((after_calls (Suc 0) (after_calls (Suc 0) (after_calls 3 w)))
         \<lparr>pending := pending w @ [new_row client_id geo]\<rparr>))"
    using assms(2,3)
    by (simp add: save_try_def db_try3 [OF a] db_try_ok [OF b] db_try_ok [OF c]
        new_row_def after_calls_fields commit_def)
  then show ?thesis
    by (simp add: save_geolocation_def after_calls_after_calls)
qed

lemma db_try_False: "faults w = False # fs \<Longrightarrow> db_try w k = k (w\<lparr>faults := fs\<rparr>)"
  by (simp add: db_try_def db_call_def)

lemma db_try_True: "faults w = True # fs \<Longrightarrow> db_try w k = (Inl DatabaseError, w\<lparr>faults := fs\<rparr>)"
  by (simp add: db_try_def db_call_def)

lemma existing_row_faults [simp]: "existing_row (w\<lparr>faults := fs\<rparr>) i = existing_row w i"
  by (simp add: existing_row_def visible_def)

lemma save_fault_early:
  assumes "faults w = replicate k False @ True # False # rest" and "k < 3"
  shows "save_geolocation w client_id geo = (Inr False, w\<lparr>faults := rest, pending := []\<rparr>)"
proof -
  from assms(2) consider "k = 0" | "k = 1" | "k = 2" by linarith
  then show ?thesis
  proof cases
    case 1
    with assms(1) show ?thesis
      by (simp add: save_geolocation_def save_try_def db_try_False db_try_True rollback_def)
  next
    case 2
    with assms(1) show ?thesis
      by (simp add: save_geolocation_def save_try_def db_try_False db_try_True rollback_def)
  next
    case 3
    with assms(1) show ?thesis
      by (simp add: save_geolocation_def save_try_def db_try_False db_try_True rollback_def
          numeral_2_eq_2)
  qed
qed

lemma save_fault_late:
  assumes "faults w = replicate k False @ True # False # rest" and "3 \<le> k" and "k < 5"
    and "existing_row w client_id = None" and "geo = Success lat lng fa pid"
  shows "save_geolocation w client_id geo = (Inr False, w\<lparr>faults := rest, pending := []\<rparr>)"
proof -
  from assms(2,3) consider "k = 3" | "k = 4" by linarith
  then show ?thesis
  proof cases
    case 1
    with assms(1,4,5) show ?thesis
      by (simp add: save_geolocation_def save_try_def db_try_False db_try_True rollback_def
          numeral_3_eq_3)
  next
    case 2
    with assms(1,4,5) show ?thesis
      by (simp add: save_geolocation_def save_try_def db_try_False db_try_True rollback_def
          eval_nat_numeral)
  qed
qed

lemma db_try_cases:
  "db_try w k = (case faults w of [] \<Rightarrow> k w
     | f # fs \<Rightarrow> if f then (Inl DatabaseError, w\<lparr>faults := fs\<rparr>) else k (w\<lparr>faults := fs\<rparr>))"
  by (simp add: db_try_def db_call_def split: list.splits)

lemma db_try_rule:
  assumes "\<And>v. same_store w v \<Longrightarrow> R (Inl DatabaseError, v)"
    and "\<And>v. same_store w v \<Longrightarrow> R (k v)"
  shows "R (db_try w k)"
proof (cases "faults w")
  case Nil
  then show ?thesis
    using assms(2) [of w] by (simp add: db_try_cases same_store_def)
next
  case (Cons f fs)
  then show ?thesis
    using assms(1) [of "w\<lparr>faults := fs\<rparr>"] assms(2) [of "w\<lparr>faults := fs\<rparr>"]
    by (simp add: db_try_cases same_store_def)
qed

lemma same_store_existing: "same_store w v \<Longrightarrow> existing_row v cid = existing_row w cid"
  by (simp add: same_store_def existing_row_def visible_def)

lemma save_post_error:
  "same_store w v \<Longrightarrow> save_post w cid geo (Inl e, v)"
  by (simp add: save_post_def same_store_def)

lemma save_try_post: "save_post w cid geo (save_try w cid geo)"
  unfolding save_try_def
proof (rule db_try_rule, erule save_post_error, rule db_try_rule)
  fix v1 v2 assume a: "same_store w v1" "same_store v1 v2"
  then show "save_post w cid geo (Inl DatabaseError, v2)"
    by (simp add: save_post_def same_store_def)
next
  fix v1 v2 assume a: "same_store w v1" "same_store v1 v2"
  then have b: "same_store w v2" by (simp add: same_store_def)
  show "save_post w cid geo
          (db_try v2
            (\<lambda>w3. if existing_row w3 cid \<noteq> None then (Inr False, w3)
                  else case geo of
                       Success lat lng fa pid \<Rightarrow>
                         db_try w3
                          (\<lambda>w4. db_try
                                 (w4\<lparr>pending :=
                                       pending w4 @
                                       [\<lparr>g_id = cid, g_latitude = lat, g_longitude = lng,
                                           g_type = SqlStr ''client''\<rparr>]\<rparr>)
                                 (\<lambda>w5. (Inr True, commit w5)))
                       | Failure e m \<Rightarrow> (Inl (KeyError ''latitude''), w3)))"
  proof (rule db_try_rule)
    fix v3 assume "same_store v2 v3"
    with b show "save_post w cid geo (Inl DatabaseError, v3)"
      by (simp add: save_post_def same_store_def)
  next
    fix v3 assume "same_store v2 v3"
    with b have c: "same_store w v3" by (simp add: same_store_def)
    show "save_post w cid geo
            (if existing_row v3 cid \<noteq> None then (Inr False, v3)
             else case geo of
                  Success lat lng fa pid \<Rightarrow>
                    db_try v3
                     (\<lambda>w4. db_try
                            (w4\<lparr>pending :=
                                  pending w4 @
                                  [\<lparr>g_id = cid, g_latitude = lat, g_longitude = lng,
                                      g_type = SqlStr ''client''\<rparr>]\<rparr>)
                            (\<lambda>w5. (Inr True, commit w5)))
                  | Failure e m \<Rightarrow> (Inl (KeyError ''latitude''), v3))"
    proof (cases "existing_row v3 cid \<noteq> None")
      case True
      with c show ?thesis by (simp add: save_post_def same_store_def)
    next
      case False
      then have n: "existing_row w cid = None"
        using same_store_existing [OF c] by simp
      show ?thesis
      proof (cases geo)
        case (Failure e m)
        with False c show ?thesis by (simp add: save_post_def same_store_def)
      next
        case (Success lat lng fa pid)
        have "save_post w cid geo
            (db_try v3
              (\<lambda>w4. db_try
                     (w4\<lparr>pending := pending w4 @ [new_row cid geo]\<rparr>)
                     (\<lambda>w5. (Inr True, commit w5))))"
        proof (rule db_try_rule)
          fix v4 assume "same_store v3 v4"
          with c show "save_post w cid geo (Inl DatabaseError, v4)"
            by (simp add: save_post_def same_store_def)
        next
          fix v4 assume "same_store v3 v4"
          with c have d: "same_store w v4" by (simp add: same_store_def)
          show "save_post w cid geo
                  (db_try (v4\<lparr>pending := pending v4 @ [new_row cid geo]\<rparr>)
                    (\<lambda>w5. (Inr True, commit w5)))"
          proof (rule db_try_rule)
            fix v5 assume "same_store (v4\<lparr>pending := pending v4 @ [new_row cid geo]\<rparr>) v5"
            with d n show "save_post w cid geo (Inl DatabaseError, v5)"
              by (simp add: save_post_def same_store_def)
          next
            fix v5 assume "same_store (v4\<lparr>pending := pending v4 @ [new_row cid geo]\<rparr>) v5"
            with d n show "save_post w cid geo (Inr True, commit v5)"
              by (simp add: save_post_def same_store_def commit_def visible_def)
          qed
        qed
        with False Success show ?thesis by (simp add: new_row_def)
      qed
    qed
  qed
qed

lemma save_geolocation_post: "save_post w cid geo (save_geolocation w cid geo)"
proof (cases "save_try w cid geo")
  case (Pair r w')
  have p: "save_post w cid geo (r, w')"
    using save_try_post [of w cid geo] Pair by simp
  show ?thesis
  proof (cases r)
    case (Inr b)
    with p Pair show ?thesis by (simp add: save_geolocation_def)
  next
    case (Inl e)
    with p Pair show ?thesis
      by (auto simp: save_geolocation_def save_post_def db_try_cases rollback_def
          split: list.splits)
  qed
qed

lemma existing_row_None:
  "cid \<noteq> SqlNull \<Longrightarrow>
   existing_row w cid = None \<longleftrightarrow>
     cid \<notin> set (map g_id (filter (\<lambda>g. g_type g = SqlStr ''client'') (visible w)))"
  by (auto simp: existing_row_def find_None_iff sql_eq_def)

lemma save_post_invariant:
  assumes "one_row_per_client w" and "cid \<noteq> SqlNull" and "save_post w cid geo rw"
  shows "one_row_per_client (snd rw)"
proof (cases "fst rw = Inr True")
  case True
  with assms(3) have n: "existing_row w cid = None"
    and v: "visible (snd rw) = visible w @ [new_row cid geo]"
    by (simp_all add: save_post_def visible_def)
  from n assms(2) have "cid \<notin> set (map g_id (filter (\<lambda>g. g_type g = SqlStr ''client'') (visible w)))"
    by (simp add: existing_row_None)
  with assms(1) show ?thesis
    by (simp add: one_row_per_client_def v new_row_def)
next
  case False
  with assms(3) have t: "tbl_geolocation (snd rw) = tbl_geolocation w"
    and p: "pending (snd rw) = pending w \<or> pending (snd rw) = [] \<or>
             existing_row w cid = None \<and> pending (snd rw) = pending w @ [new_row cid geo]"
    by (simp_all add: save_post_def)
  from p consider "visible (snd rw) = visible w" | "visible (snd rw) = tbl_geolocation w"
    | "existing_row w cid = None" "visible (snd rw) = visible w @ [new_row cid geo]"
    using t by (auto simp: visible_def)
  then show ?thesis
  proof cases
    case 1
    with assms(1) show ?thesis by (simp add: one_row_per_client_def)
  next
    case 2
    with assms(1) show ?thesis by (simp add: one_row_per_client_def visible_def)
  next
    case 3
    from 3(1) assms(2) have "cid \<notin> set (map g_id (filter (\<lambda>g. g_type g = SqlStr ''client'') (visible w)))"
      by (simp add: existing_row_None)
    with assms(1) show ?thesis
      by (simp add: one_row_per_client_def 3(2) new_row_def)
  qed
qed

lemma process_client_saved:
  assumes "client_of client cid name address"
    and "get_geolocation http address = Success lat lng fa pid"
    and "save_geolocation (geocoding w address) cid (Success lat lng fa pid) = (Inr saved, w2)"
  shows "process_client http w st client =
    (Inr (if saved
          then st\<lparr>success_count := success_count st + 1,
                  results := results st @ [Outcome_success cid name lat lng fa]\<rparr>
          else st\<lparr>skipped_count := skipped_count st + 1,
                  results := results st @ [Outcome_skipped cid name ''Already exists in database'']\<rparr>),
     w2)"
  using assms by (simp add: process_client_def client_of_def dict_item_def geocoding_def)

lemma process_client_failed:
  assumes "client_of client cid name address"
    and "get_geolocation http address = Failure e m"
  shows "process_client http w st client =
    (Inr (st\<lparr>failed_count := failed_count st + 1,
             results := results st @ [Outcome_failed cid name e m]\<rparr>), geocoding w address)"
  using assms by (simp add: process_client_def client_of_def dict_item_def geocoding_def)

lemma geocoding_fields:
  "faults (geocoding w a) = faults w" "existing_row (geocoding w a) cid = existing_row w cid"
  "visible (geocoding w a) = visible w" "tbl_geolocation (geocoding w a) = tbl_geolocation w"
  "pending (geocoded_update f w) = pending w"
  "calls_ok n (geocoding w a) = calls_ok n w"
  by (simp_all add: geocoding_def existing_row_def visible_def calls_ok_def)

lemma count_rows_new:
  assumes "cid \<noteq> SqlNull" and "existing_row w cid = None"
  shows "length (filter (\<lambda>g. g_id g = cid \<and> g_type g = SqlStr ''client'')
           (visible w @ [new_row cid geo])) = 1"
proof -
  from assms have "cid \<notin> set (map g_id (filter (\<lambda>g. g_type g = SqlStr ''client'') (visible w)))"
    by (simp add: existing_row_None)
  then have "filter (\<lambda>g. g_id g = cid \<and> g_type g = SqlStr ''client'') (visible w) = []"
    by (auto simp: filter_empty_conv)
  then show ?thesis by (simp add: new_row_def)
qed

lemma existing_row_new:
  assumes "cid \<noteq> SqlNull" and "visible v = visible w @ [new_row cid geo]"
  shows "existing_row v cid \<noteq> None"
proof -
  have "new_row cid geo \<in> set (visible v)" using assms(2) by simp
  moreover have "sql_eq (g_id (new_row cid geo)) cid \<and> g_type (new_row cid geo) = SqlStr ''client''"
    using assms(1) by (simp add: sql_eq_def new_row_def)
  ultimately show ?thesis
    unfolding existing_row_def find_None_iff by blast
qed

section \<open>Concrete runs: facts\<close>

lemma row_dict_keys:
  "row_dict r ''id'' = Some (SqlInt (c_id r))"
  "row_dict r ''client_name'' = Some (c_client_name r)"
  "dict_get (row_dict r) ''address'' = c_address r"
  "dict_get (row_dict r) ''city'' = c_city r"
  "dict_get (row_dict r) ''state'' = c_state r"
  "dict_get (row_dict r) ''pincode'' = c_pincode r"
  by (simp_all add: row_dict_def columns_def dict_get_def)

lemma address_a:
  "build_address_string (row_dict row_a) = Inr ''12 MG Road, Bengaluru, Karnataka, 560001, India''"
  by (simp add: build_address_string_def row_dict_keys row_a_def py_join_def str_int_def
      digit_char_def)

lemma address_b: "build_address_string (row_dict row_b) = Inr ''Pune, India''"
  by (simp add: build_address_string_def row_dict_keys row_b_def py_join_def)

lemma address_c: "build_address_string (row_dict row_c) = Inr ''India''"
  by (simp add: build_address_string_def row_dict_keys row_c_def py_join_def)

lemma client_a:
  "client_of (row_dict row_a) (SqlInt 1) (SqlStr ''Acme'')
     ''12 MG Road, Bengaluru, Karnataka, 560001, India''"
  by (simp add: client_of_def row_dict_keys address_a row_ids row_names)

lemma client_b: "client_of (row_dict row_b) (SqlInt 2) (SqlStr ''Bolt'') ''Pune, India''"
  by (simp add: client_of_def row_dict_keys address_b row_ids row_names)

lemma client_c: "client_of (row_dict row_c) (SqlInt 3) (SqlStr ''Core'') ''India''"
  by (simp add: client_of_def row_dict_keys address_c row_ids row_names)

lemma geocode_ok_body: "geocode_body body_ok = Inr geo_ok"
  using geocode_body_spec [OF provider_body_ok]
  by (simp add: spec_geocode_def body_ok_def member_or_def member_def geo_ok_def)

lemma geocode_zero_body:
  "geocode_body body_zero = Inr (Failure (PStr ''ZERO_RESULTS'') (Text (PStr ''No results found'')))"
  using geocode_body_spec [OF provider_body_zero]
  by (simp add: spec_geocode_def body_zero_def member_or_def member_def)

lemma demo_geocode_a:
  "get_geolocation demo_http ''12 MG Road, Bengaluru, Karnataka, 560001, India'' = geo_ok"
  by (simp add: get_geolocation_def demo_http_def geocode_ok_body)

lemma demo_geocode_b: "get_geolocation demo_http ''Pune, India'' = geo_ok"
  by (simp add: get_geolocation_def demo_http_def geocode_ok_body)

lemma demo_geocode_c:
  "get_geolocation demo_http ''India'' =
     Failure (PStr ''ZERO_RESULTS'') (Text (PStr ''No results found''))"
  by (simp add: get_geolocation_def demo_http_def geocode_zero_body)

section \<open>Geolocation Writer: theorems\<close>

text \<open>
  C6. A store in which no two geolocation rows of type 'client' share an id stays so
  after every call of the writer for a client id, whatever the calls on the connection
  do. Two calls in sequence for the same client id, with no error of the store and no
  row for that id before: the first inserts the row and returns True (saved); the second
  finds the row and returns False (skipped), inserting nothing, so the id has one row.
\<close>

theorem save_geolocation_one_row:
  assumes "client_id \<noteq> SqlNull"
  shows "(one_row_per_client w \<longrightarrow> one_row_per_client (snd (save_geolocation w client_id geo))) \<and>
   (calls_ok 8 w \<and> existing_row w client_id = None \<and> geo = Success lat lng fa pid \<longrightarrow>
     (\<exists>w1 w2. save_geolocation w client_id geo = (Inr True, w1) \<and>
        tbl_geolocation w1 = visible w @ [new_row client_id geo] \<and> pending w1 = [] \<and>
        save_geolocation w1 client_id geo2 = (Inr False, w2) \<and>
        tbl_geolocation w2 = tbl_geolocation w1 \<and> pending w2 = [] \<and>
        count_rows w2 client_id = 1))"
proof (intro conjI impI)
  assume "one_row_per_client w"
  then show "one_row_per_client (snd (save_geolocation w client_id geo))"
    using assms save_geolocation_post by (rule save_post_invariant)
next
  assume a: "calls_ok 8 w \<and> existing_row w client_id = None \<and> geo = Success lat lng fa pid"
  define w1 where "w1 = commit ((after_calls 5 w)\<lparr>pending := pending w @ [new_row client_id geo]\<rparr>)"
  have c5: "calls_ok 5 w" using a calls_ok_mono [of 8 w 5] by simp
  have s1: "save_geolocation w client_id geo = (Inr True, w1)"
    unfolding w1_def using c5 a by (simp add: save_insert)
  have t1: "tbl_geolocation w1 = visible w @ [new_row client_id geo]" and p1: "pending w1 = []"
    by (simp_all add: w1_def commit_def after_calls_fields visible_def)
  have v1: "visible w1 = visible w @ [new_row client_id geo]"
    using t1 p1 by (simp add: visible_def)
  have "calls_ok 3 (after_calls 5 w)" using a calls_ok_add [of 5 3 w] by simp
  then have c3: "calls_ok 3 w1"
    by (simp add: w1_def calls_ok_def commit_def after_calls_fields)
  have s2: "save_geolocation w1 client_id geo2 = (Inr False, after_calls 3 w1)"
    using c3 existing_row_new [OF assms v1] by (rule save_skip)
  have "count_rows (after_calls 3 w1) client_id = 1"
    using count_rows_new [OF assms, of w geo] a by (simp add: count_rows_def after_calls_fields v1)
  with s1 s2 t1 p1 show "\<exists>w1 w2. save_geolocation w client_id geo = (Inr True, w1) \<and>
        tbl_geolocation w1 = visible w @ [new_row client_id geo] \<and> pending w1 = [] \<and>
        save_geolocation w1 client_id geo2 = (Inr False, w2) \<and>
        tbl_geolocation w2 = tbl_geolocation w1 \<and> pending w2 = [] \<and>
        count_rows w2 client_id = 1"
    by (simp add: after_calls_fields)
qed

theorem save_geolocation_one_row_witness:
  "one_row_per_client (store_of [row_a] [] []) \<and>
   fst (save_geolocation (store_of [row_a] [] []) (SqlInt 1) geo_ok) = Inr True \<and>
   fst (save_geolocation (snd (save_geolocation (store_of [row_a] [] []) (SqlInt 1) geo_ok))
          (SqlInt 1) geo_ok) = Inr False \<and>
   tbl_geolocation (snd (save_geolocation (snd (save_geolocation (store_of [row_a] [] []) (SqlInt 1) geo_ok))
          (SqlInt 1) geo_ok)) = [new_row (SqlInt 1) geo_ok]"
proof -
  let ?w = "store_of [row_a] [] []"
  have i: "one_row_per_client ?w"
    by (simp add: one_row_per_client_def store_of_fields)
  have h: "calls_ok 8 ?w \<and> existing_row ?w (SqlInt 1) = None \<and>
      geo_ok = Success (PFloat 12.97) (PFloat 77.59)
        (PStr ''MG Road, Bengaluru, Karnataka 560001, India'') (PStr ''ChIJ-1'')"
    by (simp add: calls_ok_def existing_row_def store_of_fields geo_ok_def)
  have n: "SqlInt 1 \<noteq> SqlNull" by simp
  from save_geolocation_one_row [OF n, of ?w geo_ok _ _ _ _ geo_ok] h
  obtain w1 w2 where "save_geolocation ?w (SqlInt 1) geo_ok = (Inr True, w1)"
    "tbl_geolocation w1 = visible ?w @ [new_row (SqlInt 1) geo_ok]"
    "save_geolocation w1 (SqlInt 1) geo_ok = (Inr False, w2)"
    "tbl_geolocation w2 = tbl_geolocation w1"
    by blast
  with i show ?thesis by (simp add: store_of_fields)
qed

text \<open>
  C1, as the code has it. When a call on the connection raises inside the writer's
  \<^verbatim>\<open>try\<close> block (the \<open>k\<close> calls before it succeeded) and the rollback that follows
  succeeds, the pending transaction is rolled back, nothing is inserted, and the writer
  returns False: the very value it returns when the row already exists, so its result
  does not tell a failed save from an existing row.
\<close>

theorem save_geolocation_error_rollback:
  assumes "faults w = replicate k False @ True # False # rest"
    and "k < 3 \<or> (k < 5 \<and> existing_row w client_id = None)"
    and "geo = Success lat lng fa pid"
  shows "save_geolocation w client_id geo = (Inr False, w\<lparr>faults := rest, pending := []\<rparr>) \<and>
    tbl_geolocation (snd (save_geolocation w client_id geo)) = tbl_geolocation w \<and>
    visible (snd (save_geolocation w client_id geo)) = tbl_geolocation w \<and>
    (calls_ok 3 v \<and> existing_row v client_id \<noteq> None \<longrightarrow>
       save_geolocation v client_id geo = (Inr False, after_calls 3 v))"
proof -
  have a: "save_geolocation w client_id geo = (Inr False, w\<lparr>faults := rest, pending := []\<rparr>)"
  proof (cases "k < 3")
    case True
    then show ?thesis using assms(1) by (simp add: save_fault_early)
  next
    case False
    with assms(2) have "3 \<le> k" "k < 5" "existing_row w client_id = None"
      by auto
    then show ?thesis using assms(1,3) by (simp add: save_fault_late)
  qed
  have b: "calls_ok 3 v \<and> existing_row v client_id \<noteq> None \<longrightarrow>
       save_geolocation v client_id geo = (Inr False, after_calls 3 v)"
    by (simp add: save_skip)
  from a b show ?thesis by (simp add: visible_def)
qed

theorem save_geolocation_error_rollback_witness:
  "save_geolocation (store_of [row_a] [] [False, False, False, True, False]) (SqlInt 1) geo_ok =
     (Inr False, store_of [row_a] [] []) \<and>
   save_geolocation (store_of [row_a] [geo_of (SqlInt 1) (SqlStr ''client'')] [False, False, False])
       (SqlInt 1) geo_ok =
     (Inr False, store_of [row_a] [geo_of (SqlInt 1) (SqlStr ''client'')] [])"
proof -
  let ?w = "store_of [row_a] [] [False, False, False, True, False]"
  let ?v = "store_of [row_a] [geo_of (SqlInt 1) (SqlStr ''client'')] [False, False, False]"
  have f: "faults ?w = replicate 3 False @ True # False # []"
    by (simp add: store_of_fields numeral_3_eq_3)
  have e: "(3::nat) < 3 \<or> ((3::nat) < 5 \<and> existing_row ?w (SqlInt 1) = None)"
    by (simp add: existing_row_def store_of_fields)
  have g: "geo_ok = Success (PFloat 12.97) (PFloat 77.59)
        (PStr ''MG Road, Bengaluru, Karnataka 560001, India'') (PStr ''ChIJ-1'')"
    by (simp add: geo_ok_def)
  have h: "calls_ok 3 ?v \<and> existing_row ?v (SqlInt 1) \<noteq> None"
    by (simp add: calls_ok_def existing_row_def store_of_fields geo_of_fields sql_eq_def)
  note t = save_geolocation_error_rollback [OF f e g, of ?v]
  from t have "save_geolocation ?w (SqlInt 1) geo_ok = (Inr False, ?w\<lparr>faults := [], pending := []\<rparr>)"
    by blast
  moreover from t h have "save_geolocation ?v (SqlInt 1) geo_ok = (Inr False, after_calls 3 ?v)"
    by blast
  ultimately show ?thesis
    by (simp add: store_of_def after_calls_def)
qed

section \<open>Batch Orchestrator: a run whose first four calls succeed\<close>

lemma fetched_fields:
  "tbl_clients (fetched w) = tbl_clients w"
  "tbl_geolocation (fetched w) = tbl_geolocation w"
  "pending (fetched w) = []"
  "geocoded (fetched w) = geocoded w"
  "reported (fetched w) = reported w"
  "faults (fetched w) = drop 4 (faults w)"
  "visible (fetched w) = tbl_geolocation w"
  by (simp_all add: fetched_def open_conn_def after_calls_fields visible_def)

lemma spec_candidates_cong:
  "tbl_clients v = tbl_clients w \<Longrightarrow> visible v = visible w \<Longrightarrow>
   spec_candidates v = spec_candidates w"
  by (simp add: spec_candidates_def)

lemma process_clients_run:
  assumes "config_ok cfg" and "calls_ok 4 w"
  shows "process_clients cfg http limit w =
    (let clients = apply_limit limit (map row_dict (spec_candidates (fetched w)))
     in if clients = [] then (None, close_conn (fetched w))
        else (case process_loop http (fetched w) initial_state clients of
                (Inl e, w2) \<Rightarrow> (None, close_conn w2)
              | (Inr st, w2) \<Rightarrow>
                  (Some (results st),
                   close_conn (w2\<lparr>reported := Some (summary_of (length clients) st)\<rparr>))))"
proof -
  have a: "calls_ok (Suc 3) w" using assms(2) by (simp add: eval_nat_numeral)
  have b: "calls_ok 3 (open_conn (after_calls (Suc 0) w))"
    using calls_ok_after [OF a] by (simp add: calls_ok_def open_conn_def)
  have c: "after_calls 3 (open_conn (after_calls (Suc 0) w)) = fetched w"
    by (simp add: fetched_def open_conn_def after_calls_def drop_Suc_Cons eval_nat_numeral
        drop_Suc tl_drop)
  have d: "spec_candidates (open_conn (after_calls (Suc 0) w)) = spec_candidates (fetched w)"
    by (rule spec_candidates_cong)
      (simp_all add: fetched_def open_conn_def after_calls_fields visible_def)
  show ?thesis
    using assms(1)
    by (simp add: process_clients_def db_call_ok [OF a] get_clients_ok [OF b] c d)
qed

lemma existing_row_cong: "visible v = visible w \<Longrightarrow> existing_row v cid = existing_row w cid"
  by (simp add: existing_row_def)

text \<open>
  The claim C1 as stated fails: in a run where the insert raises, the outcome recorded
  is skipped and the summary counts no failure; and the writer's value for a failed save
  is the value for an existing row.
\<close>

theorem persistence_error_counterexample:
  "fst (process_clients demo_cfg demo_http None
          (store_of [row_a] [] [False, False, False, False, False, False, False, True, False])) =
     Some [Outcome_skipped (SqlInt 1) (SqlStr ''Acme'') ''Already exists in database''] \<and>
   reported (snd (process_clients demo_cfg demo_http None
          (store_of [row_a] [] [False, False, False, False, False, False, False, True, False]))) =
     Some \<lparr>total = 1, saved_n = 0, skipped_n = 1, failed_n = 0\<rparr> \<and>
   tbl_geolocation (snd (process_clients demo_cfg demo_http None
          (store_of [row_a] [] [False, False, False, False, False, False, False, True, False]))) = [] \<and>
   fst (save_geolocation (store_of [row_a] [] [False, False, False, True, False]) (SqlInt 1) geo_ok) =
     Inr False \<and>
   fst (save_geolocation (store_of [row_a] [geo_of (SqlInt 1) (SqlStr ''client'')] []) (SqlInt 1) geo_ok) =
     Inr False"
proof -
  let ?w = "store_of [row_a] [] [False, False, False, False, False, False, False, True, False]"
  let ?a = "''12 MG Road, Bengaluru, Karnataka, 560001, India''"
  have cfg: "config_ok demo_cfg" by (simp add: config_ok_def demo_cfg_def)
  have ok: "calls_ok 4 ?w" by (simp add: calls_ok_def store_of_fields eval_nat_numeral)
  have cand: "spec_candidates (fetched ?w) = [row_a]"
    by (simp add: spec_candidates_def fetched_fields store_of_fields row_names)
  have f: "faults (geocoding (fetched ?w) ?a) = replicate 3 False @ True # False # []"
    by (simp add: geocoding_fields fetched_fields store_of_fields eval_nat_numeral)
  have e: "existing_row (geocoding (fetched ?w) ?a) (SqlInt 1) = None"
    by (simp add: geocoding_fields existing_row_def fetched_fields store_of_fields)
  have s: "save_geolocation (geocoding (fetched ?w) ?a) (SqlInt 1) geo_ok =
      (Inr False, (geocoding (fetched ?w) ?a)\<lparr>faults := [], pending := []\<rparr>)"
    using f _ _ e by (rule save_fault_late) (simp_all add: geo_ok_def)
  have pc: "process_client demo_http (fetched ?w) initial_state (row_dict row_a) =
      (Inr (initial_state\<lparr>skipped_count := skipped_count initial_state + 1,
              results := results initial_state @
                [Outcome_skipped (SqlInt 1) (SqlStr ''Acme'') ''Already exists in database'']\<rparr>),
       (geocoding (fetched ?w) ?a)\<lparr>faults := [], pending := []\<rparr>)"
    using process_client_saved [OF client_a demo_geocode_a [unfolded geo_ok_def]
        s [unfolded geo_ok_def], of initial_state]
    by simp
  have loop: "process_loop demo_http (fetched ?w) initial_state [row_dict row_a] =
      (Inr \<lparr>results = [Outcome_skipped (SqlInt 1) (SqlStr ''Acme'') ''Already exists in database''],
            success_count = 0, failed_count = 0, skipped_count = 1\<rparr>,
       (geocoding (fetched ?w) ?a)\<lparr>faults := [], pending := []\<rparr>)"
    by (simp add: pc) (simp add: initial_state_def)
  have run: "process_clients demo_cfg demo_http None ?w =
      (Some [Outcome_skipped (SqlInt 1) (SqlStr ''Acme'') ''Already exists in database''],
       close_conn ((geocoding (fetched ?w) ?a)\<lparr>faults := [], pending := [],
          reported := Some \<lparr>total = 1, saved_n = 0, skipped_n = 1, failed_n = 0\<rparr>\<rparr>))"
    by (simp add: process_clients_run [OF cfg ok] cand apply_limit_def loop summary_of_def
        del: process_loop.simps)
  have w1: "fst (save_geolocation (store_of [row_a] [] [False, False, False, True, False]) (SqlInt 1) geo_ok) = Inr False"
    by (subst save_fault_late [where k = 3 and rest = "[]"])
      (simp_all add: store_of_fields existing_row_def geo_ok_def eval_nat_numeral)
  have w2: "fst (save_geolocation (store_of [row_a] [geo_of (SqlInt 1) (SqlStr ''client'')] []) (SqlInt 1) geo_ok) = Inr False"
    by (subst save_skip)
      (simp_all add: calls_ok_def store_of_fields existing_row_def geo_of_fields sql_eq_def)
  show ?thesis
    unfolding run using w1 w2
    by (simp add: close_conn_def geocoding_def fetched_fields store_of_fields)
qed

section \<open>Batch Orchestrator: the empty run and the limit\<close>

lemma db_call_fields:
  assumes "db_call w = (f, w0)"
  shows "tbl_clients w0 = tbl_clients w" "tbl_geolocation w0 = tbl_geolocation w"
    "pending w0 = pending w" "geocoded w0 = geocoded w" "reported w0 = reported w"
  using assms by (auto simp: db_call_def split: list.splits)

lemma get_clients_fields:
  "same_store w (snd (get_clients_without_geolocation w))"
  by (auto simp: get_clients_without_geolocation_def db_try_cases same_store_def
      split: list.splits)

lemma apply_limit_simps:
  "apply_limit None xs = xs"
  "apply_limit (Some 0) xs = xs"
  "0 < n \<Longrightarrow> apply_limit (Some n) xs = take (nat n) xs"
  "n < 0 \<Longrightarrow> apply_limit (Some n) xs = take (nat (int (length xs) + n)) xs"
  by (simp_all add: apply_limit_def py_prefix_def)



lemma process_client_insert:
  assumes "client_of client cid name address"
    and "get_geolocation http address = Success lat lng fa pid"
    and "calls_ok 5 w" and "existing_row w cid = None"
  shows "process_client http w st client =
    (Inr (st\<lparr>success_count := success_count st + 1,
             results := results st @ [Outcome_success cid name lat lng fa]\<rparr>),
     commit ((after_calls 5 (geocoding w address))
       \<lparr>pending := pending w @ [new_row cid (Success lat lng fa pid)]\<rparr>))"
proof -
  have "save_geolocation (geocoding w address) cid (Success lat lng fa pid) =
      (Inr True, commit ((after_calls 5 (geocoding w address))
         \<lparr>pending := pending (geocoding w address) @ [new_row cid (Success lat lng fa pid)]\<rparr>))"
    using assms(3,4) by (intro save_insert) (simp_all add: geocoding_fields)
  from process_client_saved [OF assms(1,2) this, of st]
  show ?thesis by (simp add: geocoding_def)
qed





text \<open>
  C4. The claim says that a supplied maximum of 0 processes zero candidates. The test of
  line 179 is \<^verbatim>\<open>if limit:\<close>, which 0 fails, so the code takes the branch for "no
  limit": with a limit of 0 and two candidates in the store, both are processed.
\<close>

theorem process_clients_limit_zero:
  "fst (process_clients demo_cfg demo_http (Some 0) (store_of [row_c, row_b] [] [])) =
     Some [Outcome_failed (SqlInt 3) (SqlStr ''Core'') (PStr ''ZERO_RESULTS'')
             (Text (PStr ''No results found'')),
           Outcome_success (SqlInt 2) (SqlStr ''Bolt'') (PFloat 12.97) (PFloat 77.59)
             (PStr ''MG Road, Bengaluru, Karnataka 560001, India'')] \<and>
   apply_limit (Some 0) [row_dict row_c, row_dict row_b] = [row_dict row_c, row_dict row_b]"
proof -
  let ?w = "store_of [row_c, row_b] [] []"
  have cfg: "config_ok demo_cfg" by (simp add: config_ok_def demo_cfg_def)
  have ok: "calls_ok 4 ?w" by (simp add: calls_ok_def store_of_fields)
  have c: "spec_candidates (fetched ?w) = [row_c, row_b]"
    by (simp add: spec_candidates_def fetched_fields store_of_fields row_names)
  have s1: "process_client demo_http (fetched ?w) initial_state (row_dict row_c) =
      (Inr (initial_state\<lparr>failed_count := failed_count initial_state + 1,
              results := results initial_state @
                [Outcome_failed (SqlInt 3) (SqlStr ''Core'') (PStr ''ZERO_RESULTS'')
                   (Text (PStr ''No results found''))]\<rparr>),
       geocoding (fetched ?w) ''India'')"
    using client_c demo_geocode_c by (rule process_client_failed)
  have k: "calls_ok 5 (geocoding (fetched ?w) ''India'')"
    by (simp add: geocoding_fields calls_ok_def fetched_fields store_of_fields)
  have e: "existing_row (geocoding (fetched ?w) ''India'') (SqlInt 2) = None"
    by (simp add: geocoding_fields existing_row_def fetched_fields store_of_fields)
  note s2 = process_client_insert [OF client_b demo_geocode_b [unfolded geo_ok_def] k e]
  have "fst (process_loop demo_http (fetched ?w) initial_state [row_dict row_c, row_dict row_b]) =
      Inr \<lparr>results = [Outcome_failed (SqlInt 3) (SqlStr ''Core'') (PStr ''ZERO_RESULTS'')
             (Text (PStr ''No results found'')),
           Outcome_success (SqlInt 2) (SqlStr ''Bolt'') (PFloat 12.97) (PFloat 77.59)
             (PStr ''MG Road, Bengaluru, Karnataka 560001, India'')],
           success_count = 1, failed_count = 1, skipped_count = 0\<rparr>"
    by (simp add: s1 s2) (simp add: initial_state_def)
  then obtain w2 where "process_loop demo_http (fetched ?w) initial_state
      [row_dict row_c, row_dict row_b] =
      (Inr \<lparr>results = [Outcome_failed (SqlInt 3) (SqlStr ''Core'') (PStr ''ZERO_RESULTS'')
             (Text (PStr ''No results found'')),
           Outcome_success (SqlInt 2) (SqlStr ''Bolt'') (PFloat 12.97) (PFloat 77.59)
             (PStr ''MG Road, Bengaluru, Karnataka 560001, India'')],
           success_count = 1, failed_count = 1, skipped_count = 0\<rparr>, w2)"
    by (cases "process_loop demo_http (fetched ?w) initial_state [row_dict row_c, row_dict row_b]")
      simp
  then show ?thesis
    by (simp add: process_clients_run [OF cfg ok] c apply_limit_def Let_def
        del: process_loop.simps)
qed

section \<open>Batch Orchestrator: the loop\<close>

lemma process_client_post:
  assumes "process_client http w st client = (Inr st', w')"
  shows "\<exists>x. step_post w st client st' w' x"
proof -
  from assms obtain cid name address where c: "client_of client cid name address"
    by (auto simp: process_client_def client_of_def dict_item_def
        split: option.splits sum.splits)
  then have id: "dict_get client ''id'' = cid"
    by (simp add: client_of_def dict_get_def)
  show ?thesis
  proof (cases "get_geolocation http address")
    case (Failure e m)
    from process_client_failed [OF c Failure, of w st] assms
    have "st' = st\<lparr>failed_count := failed_count st + 1,
             results := results st @ [Outcome_failed cid name e m]\<rparr>" "w' = geocoding w address"
      by simp_all
    then have "step_post w st client st' w' (Outcome_failed cid name e m)"
      by (simp add: step_post_def id tally_def counts_agree_def count_status_def geocoding_def)
    then show ?thesis ..
  next
    case (Success lat lng fa pid)
    let ?w1 = "geocoding w address"
    obtain r w2 where s: "save_geolocation ?w1 cid (Success lat lng fa pid) = (r, w2)"
      by (cases "save_geolocation ?w1 cid (Success lat lng fa pid)")
    have p: "save_post ?w1 cid (Success lat lng fa pid) (r, w2)"
      using save_geolocation_post [of ?w1 cid "Success lat lng fa pid"] s by simp
    from assms c Success s obtain saved where r: "r = Inr saved"
      by (cases r) (auto simp: process_client_def client_of_def dict_item_def geocoding_def)
    from process_client_saved [OF c Success s [unfolded r], of st] assms
    have st': "st' = (if saved
          then st\<lparr>success_count := success_count st + 1,
                  results := results st @ [Outcome_success cid name lat lng fa]\<rparr>
          else st\<lparr>skipped_count := skipped_count st + 1,
                  results := results st @ [Outcome_skipped cid name ''Already exists in database'']\<rparr>)"
      and w': "w' = w2" by simp_all
    show ?thesis
    proof (cases saved)
      case True
      with p r have "tbl_geolocation w2 = visible ?w1 @ [new_row cid (Success lat lng fa pid)]"
        and "tbl_clients w2 = tbl_clients w"
        by (simp_all add: save_post_def geocoding_def)
      then have "step_post w st client st' w' (Outcome_success cid name lat lng fa)"
        using True st' w'
        by (auto simp: step_post_def id tally_def counts_agree_def count_status_def has_row_def
            new_row_def geocoding_fields visible_def)
      then show ?thesis ..
    next
      case False
      with p r have "tbl_geolocation w2 = tbl_geolocation w" and "tbl_clients w2 = tbl_clients w"
        by (simp_all add: save_post_def geocoding_def)
      then have "step_post w st client st' w' (Outcome_skipped cid name ''Already exists in database'')"
        using False st' w'
        by (simp add: step_post_def id tally_def counts_agree_def count_status_def)
      then show ?thesis ..
    qed
  qed
qed

lemma has_row_mono:
  "has_row w cid \<Longrightarrow> set (tbl_geolocation w) \<subseteq> set (tbl_geolocation w') \<Longrightarrow> has_row w' cid"
  by (auto simp: has_row_def)

lemma process_loop_post:
  assumes "process_loop http w st clients = (Inr st', w')"
  shows "\<exists>xs. loop_post w st clients st' w' xs"
  using assms
proof (induction clients arbitrary: w st)
  case Nil
  then have "loop_post w st [] st' w' []"
    by (simp add: loop_post_def)
  then show ?case ..
next
  case (Cons c cs)
  from Cons.prems obtain st1 w1 where one: "process_client http w st c = (Inr st1, w1)"
    and rest: "process_loop http w1 st1 cs = (Inr st', w')"
    by (auto split: prod.splits sum.splits)
  from process_client_post [OF one] obtain x where x: "step_post w st c st1 w1 x" ..
  from Cons.IH [OF rest] obtain xs where xs: "loop_post w1 st1 cs st' w' xs" ..
  from x xs have "has_row w1 (dict_get c ''id'') \<longrightarrow> has_row w' (dict_get c ''id'')"
    by (auto simp: step_post_def loop_post_def intro: has_row_mono)
  with x xs have "loop_post w st (c # cs) st' w' (x # xs)"
    by (auto simp: step_post_def loop_post_def)
  then show ?case ..
qed






section \<open>Batch Orchestrator: a second run\<close>

lemma get_clients_Inr:
  assumes "get_clients_without_geolocation w = (Inr cs, w')"
  shows "cs = map row_dict (spec_candidates w)" and "same_store w w'"
proof -
  have ok: "calls_ok 3 w"
    using assms get_clients_fault [of w] by (cases "calls_ok 3 w") simp_all
  from get_clients_ok [OF ok] assms show "cs = map row_dict (spec_candidates w)" by simp
  from get_clients_fields [of w] assms show "same_store w w'" by simp
qed

lemma process_clients_Some:
  assumes "process_clients cfg http limit w = (Some rs, w1)"
  shows "\<exists>w0 all wf st w2. config_ok cfg \<and> db_call w = (False, w0) \<and>
    get_clients_without_geolocation (open_conn w0) = (Inr all, wf) \<and>
    process_loop http wf initial_state (apply_limit limit all) = (Inr st, w2) \<and>
    rs = results st \<and>
    w1 = close_conn (w2\<lparr>reported := Some (summary_of (length (apply_limit limit all)) st)\<rparr>)"
  using assms
  by (auto simp: process_clients_def Let_def split: if_splits prod.splits sum.splits bool.splits)

lemma process_clients_no_work:
  assumes "spec_candidates v = []" and "pending v = []"
  shows "fst (process_clients cfg http limit (v\<lparr>faults := fs\<rparr>)) = None \<and>
    same_store v (snd (process_clients cfg http limit (v\<lparr>faults := fs\<rparr>)))"
proof (cases "config_ok cfg")
  case False
  then show ?thesis by (simp add: process_clients_def same_store_def)
next
  case True
  obtain f w0 where d: "db_call (v\<lparr>faults := fs\<rparr>) = (f, w0)"
    by (cases "db_call (v\<lparr>faults := fs\<rparr>)")
  note df = db_call_fields [OF d]
  have s0: "same_store v w0" using df by (simp add: same_store_def)
  show ?thesis
  proof (cases f)
    case True
    with d s0 \<open>config_ok cfg\<close> show ?thesis by (simp add: process_clients_def)
  next
    case False
    obtain r wf where g: "get_clients_without_geolocation (open_conn w0) = (r, wf)"
      by (cases "get_clients_without_geolocation (open_conn w0)")
    have sf: "same_store (open_conn w0) wf"
      using get_clients_fields [of "open_conn w0"] g by simp
    have sc: "same_store v (close_conn wf)"
      using sf s0 assms(2) by (simp add: same_store_def close_conn_def open_conn_def)
    have c0: "spec_candidates (open_conn w0) = []"
      using assms s0
      by (subst spec_candidates_cong [of _ v]) (simp_all add: same_store_def open_conn_def visible_def)
    show ?thesis
    proof (cases r)
      case (Inl e)
      with d g False sc \<open>config_ok cfg\<close> show ?thesis by (simp add: process_clients_def)
    next
      case (Inr all)
      with g get_clients_Inr(1) [of "open_conn w0" all wf] c0 have "all = []" by simp
      then have "apply_limit limit all = []"
        by (cases limit) (simp_all add: apply_limit_def py_prefix_def)
      with d g False sc Inr \<open>config_ok cfg\<close> show ?thesis by (simp add: process_clients_def)
    qed
  qed
qed

lemma all_success_no_candidates:
  assumes "process_clients cfg http None w = (Some rs, w1)"
    and "\<forall>x \<in> set rs. status x = ''success''"
  shows "spec_candidates w1 = []" and "pending w1 = []" and "tbl_clients w1 = tbl_clients w"
    and "set (tbl_geolocation w) \<subseteq> set (tbl_geolocation w1)"
proof -
  from process_clients_Some [OF assms(1)] obtain w0 all wf st w2 where
    d: "db_call w = (False, w0)" and g: "get_clients_without_geolocation (open_conn w0) = (Inr all, wf)"
    and l: "process_loop http wf initial_state all = (Inr st, w2)" and rs: "rs = results st"
    and w1: "w1 = close_conn (w2\<lparr>reported := Some (summary_of (length all) st)\<rparr>)"
    by (auto simp: apply_limit_def)
  note df = db_call_fields [OF d]
  note gi = get_clients_Inr [OF g]
  from process_loop_post [OF l] obtain xs where xs: "loop_post wf initial_state all st w2 xs" ..
  then have r: "rs = xs" using rs by (simp add: loop_post_def initial_state_def)
  from xs have tc: "tbl_clients w2 = tbl_clients wf"
    and sub: "set (tbl_geolocation wf) \<subseteq> set (tbl_geolocation w2)"
    and la: "list_all2 (\<lambda>c x. status x = ''success'' \<longrightarrow> has_row w2 (dict_get c ''id'')) all xs"
    by (simp_all add: loop_post_def)
  from gi(2) df have wf: "tbl_clients wf = tbl_clients w" "tbl_geolocation wf = tbl_geolocation w"
    by (simp_all add: same_store_def open_conn_def)
  show "pending w1 = []" by (simp add: w1 close_conn_def)
  show "tbl_clients w1 = tbl_clients w" using tc wf by (simp add: w1 close_conn_def)
  show "set (tbl_geolocation w) \<subseteq> set (tbl_geolocation w1)"
    using sub wf by (simp add: w1 close_conn_def)
  have rows: "has_row w2 (dict_get c ''id'')" if "c \<in> set all" for c
  proof -
    from that obtain i where i: "i < length all" "all ! i = c" by (auto simp: in_set_conv_nth)
    with la have "status (xs ! i) = ''success'' \<longrightarrow> has_row w2 (dict_get c ''id'')"
      by (auto simp: list_all2_conv_all_nth)
    moreover have "xs ! i \<in> set rs" using i la r by (auto simp: list_all2_conv_all_nth)
    ultimately show ?thesis using assms(2) by blast
  qed
  have v1: "visible w1 = tbl_geolocation w2" "tbl_clients w1 = tbl_clients w"
    using tc wf by (simp_all add: w1 close_conn_def visible_def)
  have v0: "visible (open_conn w0) = tbl_geolocation w" "tbl_clients (open_conn w0) = tbl_clients w"
    using df by (simp_all add: open_conn_def visible_def)
  show "spec_candidates w1 = []"
  proof (rule ccontr)
    assume "spec_candidates w1 \<noteq> []"
    then obtain c where c: "c \<in> set (spec_candidates w1)"
      by (cases "spec_candidates w1") auto
    then have c1: "c \<in> set (tbl_clients w)" "c_client_name c \<noteq> SqlNull"
      and c2: "SqlInt (c_id c) \<notin> set (map g_id (filter (\<lambda>g. g_type g = SqlStr ''client'') (tbl_geolocation w2)))"
      by (simp_all add: spec_candidates_def v1)
    from c2 sub wf have "SqlInt (c_id c) \<notin> set (map g_id (filter (\<lambda>g. g_type g = SqlStr ''client'') (tbl_geolocation w)))"
      by auto
    with c1 have "c \<in> set (spec_candidates (open_conn w0))"
      by (simp add: spec_candidates_def v0)
    then have "row_dict c \<in> set all" using gi(1) by simp
    from rows [OF this] have "has_row w2 (SqlInt (c_id c))" by (simp add: row_dict_id)
    with c2 show False by (force simp: has_row_def image_iff)
  qed
qed

lemma first_run_ab:
  "fst (process_clients demo_cfg demo_http None store_ab) =
     Some [Outcome_success (SqlInt 1) (SqlStr ''Acme'') (PFloat 12.97) (PFloat 77.59)
             (PStr ''MG Road, Bengaluru, Karnataka 560001, India''),
           Outcome_success (SqlInt 2) (SqlStr ''Bolt'') (PFloat 12.97) (PFloat 77.59)
             (PStr ''MG Road, Bengaluru, Karnataka 560001, India'')]"
proof -
  let ?w = "store_ab"
  let ?a = "''12 MG Road, Bengaluru, Karnataka, 560001, India''"
  let ?g = "Success (PFloat 12.97) (PFloat 77.59)
      (PStr ''MG Road, Bengaluru, Karnataka 560001, India'') (PStr ''ChIJ-1'')"
  have cfg: "config_ok demo_cfg" by (simp add: config_ok_def demo_cfg_def)
  have ok: "calls_ok 4 ?w" by (simp add: calls_ok_def store_ab_def store_of_fields)
  have c: "spec_candidates (fetched ?w) = [row_a, row_b]"
    by (simp add: spec_candidates_def fetched_fields store_ab_def store_of_fields row_names)
  have k1: "calls_ok 5 (fetched ?w)"
    by (simp add: calls_ok_def fetched_fields store_ab_def store_of_fields)
  have e1: "existing_row (fetched ?w) (SqlInt 1) = None"
    by (simp add: existing_row_def fetched_fields store_ab_def store_of_fields)
  note s1 = process_client_insert [OF client_a demo_geocode_a [unfolded geo_ok_def] k1 e1]
  define w1 where "w1 = commit ((after_calls 5 (geocoding (fetched ?w) ?a))
       \<lparr>pending := pending (fetched ?w) @ [new_row (SqlInt 1) ?g]\<rparr>)"
  have k2: "calls_ok 5 w1"
    by (simp add: w1_def calls_ok_def commit_def after_calls_fields geocoding_fields
        fetched_fields store_ab_def store_of_fields)
  have "visible w1 = [new_row (SqlInt 1) ?g]"
    by (simp add: w1_def commit_def visible_def after_calls_fields geocoding_fields
        fetched_fields store_ab_def store_of_fields)
  then have e2: "existing_row w1 (SqlInt 2) = None"
    by (simp add: existing_row_def new_row_def sql_eq_def)
  note s2 = process_client_insert [OF client_b demo_geocode_b [unfolded geo_ok_def] k2 e2]
  have "fst (process_loop demo_http (fetched ?w) initial_state [row_dict row_a, row_dict row_b]) =
      Inr \<lparr>results = [Outcome_success (SqlInt 1) (SqlStr ''Acme'') (PFloat 12.97) (PFloat 77.59)
             (PStr ''MG Road, Bengaluru, Karnataka 560001, India''),
           Outcome_success (SqlInt 2) (SqlStr ''Bolt'') (PFloat 12.97) (PFloat 77.59)
             (PStr ''MG Road, Bengaluru, Karnataka 560001, India'')],
           success_count = 2, failed_count = 0, skipped_count = 0\<rparr>"
    by (simp add: s1 [folded w1_def] s2) (simp add: initial_state_def)
  then obtain w2 where "process_loop demo_http (fetched ?w) initial_state
      [row_dict row_a, row_dict row_b] =
      (Inr \<lparr>results = [Outcome_success (SqlInt 1) (SqlStr ''Acme'') (PFloat 12.97) (PFloat 77.59)
             (PStr ''MG Road, Bengaluru, Karnataka 560001, India''),
           Outcome_success (SqlInt 2) (SqlStr ''Bolt'') (PFloat 12.97) (PFloat 77.59)
             (PStr ''MG Road, Bengaluru, Karnataka 560001, India'')],
           success_count = 2, failed_count = 0, skipped_count = 0\<rparr>, w2)"
    by (cases "process_loop demo_http (fetched ?w) initial_state [row_dict row_a, row_dict row_b]")
      simp
  then show ?thesis
    by (simp add: process_clients_run [OF cfg ok] c apply_limit_def Let_def
        del: process_loop.simps)
qed

text \<open>
  C2, as the code has it. If a run of the whole batch returns outcome records that are
  all successes, then in the store it leaves behind the candidate query selects nothing:
  a second run with no new client, whatever the provider and the store's calls do, has
  no candidate, returns \<^verbatim>\<open>None\<close>, asks the provider nothing and inserts nothing. The
  clients of the first run get no outcome at all in the second: not skipped, not
  failed, not inserted again.
\<close>

theorem second_run_has_no_candidates:
  assumes "process_clients cfg http None w = (Some rs, w1)"
    and "\<forall>x \<in> set rs. status x = ''success''"
  shows "spec_candidates w1 = [] \<and> tbl_clients w1 = tbl_clients w \<and>
    fst (process_clients cfg http2 limit2 (w1\<lparr>faults := fs\<rparr>)) = None \<and>
    tbl_geolocation (snd (process_clients cfg http2 limit2 (w1\<lparr>faults := fs\<rparr>))) = tbl_geolocation w1 \<and>
    geocoded (snd (process_clients cfg http2 limit2 (w1\<lparr>faults := fs\<rparr>))) = geocoded w1 \<and>
    reported (snd (process_clients cfg http2 limit2 (w1\<lparr>faults := fs\<rparr>))) = reported w1"
proof -
  note a = all_success_no_candidates [OF assms]
  from process_clients_no_work [OF a(1,2), of cfg http2 limit2 fs] a(1,3)
  show ?thesis by (simp add: same_store_def)
qed

theorem second_run_has_no_candidates_witness:
  "fst (process_clients demo_cfg demo_http None store_ab) =
     Some [Outcome_success (SqlInt 1) (SqlStr ''Acme'') (PFloat 12.97) (PFloat 77.59)
             (PStr ''MG Road, Bengaluru, Karnataka 560001, India''),
           Outcome_success (SqlInt 2) (SqlStr ''Bolt'') (PFloat 12.97) (PFloat 77.59)
             (PStr ''MG Road, Bengaluru, Karnataka 560001, India'')] \<and>
   spec_candidates (snd (process_clients demo_cfg demo_http None store_ab)) = [] \<and>
   fst (process_clients demo_cfg demo_http None
          ((snd (process_clients demo_cfg demo_http None store_ab))\<lparr>faults := []\<rparr>)) = None \<and>
   tbl_geolocation (snd (process_clients demo_cfg demo_http None
          ((snd (process_clients demo_cfg demo_http None store_ab))\<lparr>faults := []\<rparr>))) =
     tbl_geolocation (snd (process_clients demo_cfg demo_http None store_ab))"
proof -
  let ?rs = "[Outcome_success (SqlInt 1) (SqlStr ''Acme'') (PFloat 12.97) (PFloat 77.59)
             (PStr ''MG Road, Bengaluru, Karnataka 560001, India''),
           Outcome_success (SqlInt 2) (SqlStr ''Bolt'') (PFloat 12.97) (PFloat 77.59)
             (PStr ''MG Road, Bengaluru, Karnataka 560001, India'')]"
  have r: "process_clients demo_cfg demo_http None store_ab =
      (Some ?rs, snd (process_clients demo_cfg demo_http None store_ab))"
    using first_run_ab by (simp add: prod_eq_iff)
  have s: "\<forall>x \<in> set ?rs. status x = ''success''" by simp
  from second_run_has_no_candidates [OF r s, of demo_http None "[]"] first_run_ab
  show ?thesis by simp
qed

text \<open>
  The claim C2 as stated fails: after a run in which both clients succeeded, the second
  run over the same clients returns \<^verbatim>\<open>None\<close>; it holds no skipped outcome for them.
\<close>

theorem second_run_counterexample:
  "fst (process_clients demo_cfg demo_http None store_ab) =
     Some [Outcome_success (SqlInt 1) (SqlStr ''Acme'') (PFloat 12.97) (PFloat 77.59)
             (PStr ''MG Road, Bengaluru, Karnataka 560001, India''),
           Outcome_success (SqlInt 2) (SqlStr ''Bolt'') (PFloat 12.97) (PFloat 77.59)
             (PStr ''MG Road, Bengaluru, Karnataka 560001, India'')] \<and>
   tbl_clients (snd (process_clients demo_cfg demo_http None store_ab)) = tbl_clients store_ab \<and>
   fst (process_clients demo_cfg demo_http None
          ((snd (process_clients demo_cfg demo_http None store_ab))\<lparr>faults := []\<rparr>)) = None"
proof -
  let ?rs = "[Outcome_success (SqlInt 1) (SqlStr ''Acme'') (PFloat 12.97) (PFloat 77.59)
             (PStr ''MG Road, Bengaluru, Karnataka 560001, India''),
           Outcome_success (SqlInt 2) (SqlStr ''Bolt'') (PFloat 12.97) (PFloat 77.59)
             (PStr ''MG Road, Bengaluru, Karnataka 560001, India'')]"
  have r: "process_clients demo_cfg demo_http None store_ab =
      (Some ?rs, snd (process_clients demo_cfg demo_http None store_ab))"
    using first_run_ab by (simp add: prod_eq_iff)
  have s: "\<forall>x \<in> set ?rs. status x = ''success''" by simp
  note a = all_success_no_candidates [OF r s]
  from process_clients_no_work [OF a(1,2), of demo_cfg demo_http None "[]"] a(3) first_run_ab
  show ?thesis by simp
qed

end
